theory Spec2Isabelle
  imports Main
begin

section \<open>Dates, timestamps and the clock\<close>

text \<open>
  A calendar date (SQL \<open>DATE\<close>) and a timestamp (SQL \<open>TIMESTAMP\<close>): a date and
  the seconds since midnight. \<open>NOW()\<close> and \<open>CURRENT_DATE\<close> are read from the clock value
  that every operation receives.
\<close>

datatype date = Date (year: int) (month: nat) (day: nat)

datatype timestamp = Timestamp (ts_date: date) (ts_secs: nat)

definition date_le :: "date \<Rightarrow> date \<Rightarrow> bool" where
  "date_le d e =
     (year d < year e \<or>
      (year d = year e \<and> (month d < month e \<or> (month d = month e \<and> day d \<le> day e))))"

definition is_leap :: "int \<Rightarrow> bool" where
  "is_leap y = (y mod 4 = 0 \<and> (y mod 100 \<noteq> 0 \<or> y mod 400 = 0))"

definition days_in_month :: "int \<Rightarrow> nat \<Rightarrow> nat" where
  "days_in_month y m =
     (if m = 2 then (if is_leap y then 29 else 28)
      else if m = 4 \<or> m = 6 \<or> m = 9 \<or> m = 11 then 30 else 31)"

text \<open>
  \<open>CURRENT_DATE - INTERVAL 'n months'\<close>: the month moves back by \<open>n\<close>, the day is cut
  to the last day of the month reached; the result is midnight of that date, so a
  \<open>DATE\<close> or \<open>TIMESTAMP\<close> column is \<open>>=\<close> it exactly when its date is.
\<close>

definition minus_months :: "nat \<Rightarrow> date \<Rightarrow> date" where
  "minus_months n d =
     (let t = year d * 12 + int (month d) - 1 - int n;
          y = t div 12;
          m = nat (t mod 12) + 1
      in Date y m (min (day d) (days_in_month y m)))"

section \<open>The relational store\<close>

text \<open>
  The tables of the schema, each a list of rows, with the columns the queries below read
  or write. A nullable column is an \<open>option\<close>. The two \<open>SERIAL\<close> keys that the
  operations below draw have their sequences in the state.
\<close>

record patient =
  p_patient_id :: nat
  p_age :: "int option"

record doctor =
  d_doctor_id :: nat

record appointment =
  a_appointment_id :: nat
  a_patient_id :: "nat option"
  a_doctor_id :: "nat option"

record prescription =
  pr_prescription_id :: nat
  pr_appointment_id :: "nat option"
  pr_medicine_name :: string
  pr_dosage :: string
  pr_created_at :: "timestamp option"
  pr_side_effects :: "string option"
  pr_reported_allergy :: "bool option"

record medicine_side_effect =
  mse_medicine_name :: string
  mse_side_effect :: string
  mse_severity :: "string option"

record disease_history_row =
  dh_patient_id :: "nat option"
  dh_disease_name :: string
  dh_diagnosed_date :: date

datatype factor_value = Entry int string | Summary string

type_synonym factors = "(string \<times> factor_value) list"

record health_risk_score_row =
  hrs_risk_id :: nat
  hrs_patient_id :: "nat option"
  hrs_risk_score :: "int option"
  hrs_risk_level :: "string option"
  hrs_factors :: factors
  hrs_calculated_at :: "timestamp option"

record message_row =
  m_message_id :: nat
  m_appointment_id :: "nat option"
  m_sender_id :: nat
  m_sender_role :: string
  m_message :: string
  m_is_read :: bool
  m_timestamp :: timestamp

record db =
  patients :: "patient list"
  doctors :: "doctor list"
  appointments :: "appointment list"
  prescriptions :: "prescription list"
  medicine_side_effects :: "medicine_side_effect list"
  health_risk_score :: "health_risk_score_row list"
  disease_history :: "disease_history_row list"
  messages :: "message_row list"
  health_risk_score_risk_id_seq :: nat
  messages_message_id_seq :: nat

section \<open>Errors and the connection pool\<close>

text \<open>
  A rejected \<open>pool.query\<close> is a \<open>DatabaseError\<close>; \<open>throw new Error(msg)\<close> is
  \<open>Error msg\<close>. A fault schedule says, for the \<open>i\<close>-th query an operation issues,
  whether the pool rejects it (connectivity and the like) and with which message.
\<close>

datatype error = DatabaseError string | Error string

type_synonym faults = "nat \<Rightarrow> string option"

definition no_faults :: faults where
  "no_faults = (\<lambda>i. None)"

definition pool_query :: "faults \<Rightarrow> nat \<Rightarrow> 'a \<Rightarrow> error + 'a" where
  "pool_query fs i rows = (case fs i of Some msg \<Rightarrow> Inl (DatabaseError msg) | None \<Rightarrow> Inr rows)"

definition err_message :: "error \<Rightarrow> string" where
  "err_message e = (case e of DatabaseError m \<Rightarrow> m | Error m \<Rightarrow> m)"

text \<open>\<open>LEFT JOIN\<close>: the matching rows of the right table, or one \<open>NULL\<close> row.\<close>

definition left_join :: "('b \<Rightarrow> bool) \<Rightarrow> 'b list \<Rightarrow> 'b option list" where
  "left_join P ys = (if filter P ys = [] then [None] else map Some (filter P ys))"

section \<open>Chat: sendMessage\<close>

text \<open>
  The row object of the appointment query: \<open>a.*\<close> followed by \<open>p.patient_id\<close> and
  \<open>d.doctor_id\<close>; a later column of the same name overwrites the earlier one, so
  \<open>patient_id\<close> and \<open>doctor_id\<close> are those of the joined tables.
\<close>

record appointment_join =
  aj_appointment_id :: nat
  aj_patient_id :: "nat option"
  aj_doctor_id :: "nat option"

definition select_appointment :: "db \<Rightarrow> nat \<Rightarrow> appointment_join list" where
  "select_appointment s appointmentId =
     concat (map (\<lambda>a.
       concat (map (\<lambda>p.
         map (\<lambda>d. \<lparr>aj_appointment_id = a_appointment_id a,
                    aj_patient_id = map_option p_patient_id p,
                    aj_doctor_id = map_option d_doctor_id d\<rparr>)
           (left_join (\<lambda>d. a_doctor_id a = Some (d_doctor_id d)) (doctors s)))
         (left_join (\<lambda>p. a_patient_id a = Some (p_patient_id p)) (patients s))))
       (filter (\<lambda>a. a_appointment_id a = appointmentId) (appointments s)))"

text \<open>
  \<open>INSERT INTO messages ... RETURNING *\<close>: the key comes from the sequence (drawn
  whether or not the row is kept), \<open>is_read\<close> and \<open>timestamp\<close> take their defaults;
  the row is refused when \<open>sender_role\<close> fails its \<open>CHECK\<close> or the appointment
  is missing (foreign key).
\<close>

definition insert_message ::
  "timestamp \<Rightarrow> db \<Rightarrow> nat \<Rightarrow> nat \<Rightarrow> string \<Rightarrow> string \<Rightarrow> (error + message_row) \<times> db" where
  "insert_message now s appointmentId senderId senderRole messageText =
     (let k = Suc (messages_message_id_seq s);
          s1 = s\<lparr>messages_message_id_seq := k\<rparr>;
          row = \<lparr>m_message_id = k, m_appointment_id = Some appointmentId,
                 m_sender_id = senderId, m_sender_role = senderRole,
                 m_message = messageText, m_is_read = False, m_timestamp = now\<rparr>
      in if senderRole \<noteq> ''patient'' \<and> senderRole \<noteq> ''doctor''
         then (Inl (DatabaseError ''violates check constraint''), s1)
         else if filter (\<lambda>a. a_appointment_id a = appointmentId) (appointments s) = []
         then (Inl (DatabaseError ''violates foreign key constraint''), s1)
         else (Inr row, s1\<lparr>messages := messages s @ [row]\<rparr>))"

record send_result =
  sr_success :: bool
  sr_message :: message_row

definition isValidSender :: "appointment_join \<Rightarrow> nat \<Rightarrow> string \<Rightarrow> bool" where
  "isValidSender appointment senderId senderRole =
     ((senderRole = ''patient'' \<and> aj_patient_id appointment = Some senderId) \<or>
      (senderRole = ''doctor'' \<and> aj_doctor_id appointment = Some senderId))"

text \<open>
  The body of the \<open>try\<close>; the \<open>catch\<close> logs and rethrows, so an error of the body is
  the error of the call.
\<close>

definition sendMessage ::
  "faults \<Rightarrow> timestamp \<Rightarrow> db \<Rightarrow> nat \<Rightarrow> nat \<Rightarrow> string \<Rightarrow> string \<Rightarrow> (error + send_result) \<times> db" where
  "sendMessage fs now s appointmentId senderId senderRole messageText =
     (case pool_query fs 0 (select_appointment s appointmentId) of
        Inl e \<Rightarrow> (Inl e, s)
      | Inr [] \<Rightarrow> (Inl (Error ''Appointment not found''), s)
      | Inr (appointment # rest) \<Rightarrow>
          if \<not> isValidSender appointment senderId senderRole
          then (Inl (Error ''Unauthorized: sender not part of this appointment''), s)
          else (case pool_query fs 1 () of
                  Inl e \<Rightarrow> (Inl e, s)
                | Inr u \<Rightarrow>
                   (case insert_message now s appointmentId senderId senderRole messageText of
                      (Inl e, s1) \<Rightarrow> (Inl e, s1)
                    | (Inr row, s1) \<Rightarrow> (Inr \<lparr>sr_success = True, sr_message = row\<rparr>, s1))))"

text \<open>
  The sender is the appointment's own patient (for role patient) or its own doctor (for
  role doctor), read off the \<open>appointments\<close> table.
\<close>

definition own_sender :: "appointment \<Rightarrow> nat \<Rightarrow> string \<Rightarrow> bool" where
  "own_sender a senderId senderRole =
     ((senderRole = ''patient'' \<and> a_patient_id a = Some senderId) \<or>
      (senderRole = ''doctor'' \<and> a_doctor_id a = Some senderId))"

text \<open>A store with one patient, one doctor and the appointment between them.\<close>

definition chat_db :: db where
  "chat_db =
     \<lparr>patients = [\<lparr>p_patient_id = 1, p_age = Some 40\<rparr>],
      doctors = [\<lparr>d_doctor_id = 2\<rparr>],
      appointments = [\<lparr>a_appointment_id = 1, a_patient_id = Some 1, a_doctor_id = Some 2\<rparr>],
      prescriptions = [], medicine_side_effects = [], health_risk_score = [],
      disease_history = [], messages = [],
      health_risk_score_risk_id_seq = 0, messages_message_id_seq = 0\<rparr>"

definition noon :: timestamp where
  "noon = Timestamp (Date 2025 3 14) 43200"

section \<open>Text\<close>

text \<open>
  A number inside a template literal is printed in decimal. Characters outside ASCII are
  the bytes of their UTF-8 encoding.
\<close>

fun show_nat :: "nat \<Rightarrow> string" where
  "show_nat n =
     (if n < 10 then [''0123456789'' ! n]
      else show_nat (n div 10) @ [''0123456789'' ! (n mod 10)])"

declare show_nat.simps [simp del]

definition show_int :: "int \<Rightarrow> string" where
  "show_int i = (if i < 0 then CHR ''-'' # show_nat (nat (- i)) else show_nat (nat i))"

definition warning_sign :: string where
  "warning_sign = [CHR 0xE2, CHR 0x9A, CHR 0xA0, CHR 0xEF, CHR 0xB8, CHR 0x8F]"

definition check_mark :: string where
  "check_mark = [CHR 0xE2, CHR 0x9C, CHR 0x85]"

definition red_circle :: string where
  "red_circle = [CHR 0xF0, CHR 0x9F, CHR 0x94, CHR 0xB4]"

definition yellow_circle :: string where
  "yellow_circle = [CHR 0xF0, CHR 0x9F, CHR 0x9F, CHR 0xA1]"

definition orange_circle :: string where
  "orange_circle = [CHR 0xF0, CHR 0x9F, CHR 0x9F, CHR 0xA0]"

definition green_circle :: string where
  "green_circle = [CHR 0xF0, CHR 0x9F, CHR 0x9F, CHR 0xA2]"

definition en_dash :: string where
  "en_dash = [CHR 0xE2, CHR 0x80, CHR 0x93]"

text \<open>\<open>haystack.includes(needle)\<close>.\<close>

fun string_includes :: "string \<Rightarrow> string \<Rightarrow> bool" where
  "string_includes [] needle = (needle = [])"
| "string_includes (c # cs) needle =
     (take (length needle) (c # cs) = needle \<or> string_includes cs needle)"

section \<open>Aggregates\<close>

text \<open>
  \<open>MIN\<close> and \<open>MAX\<close> over the non-null values of a group (\<open>NULL\<close> when there is
  none), \<open>STRING_AGG\<close>, and \<open>ORDER BY k DESC\<close> as a stable insertion sort on the
  negated key (SQL leaves the order of ties open; this is one of the allowed orders).
\<close>

definition timestamp_le :: "timestamp \<Rightarrow> timestamp \<Rightarrow> bool" where
  "timestamp_le t u =
     (if ts_date t = ts_date u then ts_secs t \<le> ts_secs u else date_le (ts_date t) (ts_date u))"

fun agg_by :: "('a \<Rightarrow> 'a \<Rightarrow> bool) \<Rightarrow> 'a list \<Rightarrow> 'a option" where
  "agg_by better [] = None"
| "agg_by better (x # xs) =
     (case agg_by better xs of None \<Rightarrow> Some x
      | Some y \<Rightarrow> Some (if better x y then x else y))"

definition min_date :: "date list \<Rightarrow> date option" where
  "min_date ds = agg_by date_le ds"

definition max_date :: "date list \<Rightarrow> date option" where
  "max_date ds = agg_by (\<lambda>d e. date_le e d) ds"

definition min_timestamp :: "timestamp list \<Rightarrow> timestamp option" where
  "min_timestamp ts = agg_by timestamp_le ts"

definition max_timestamp :: "timestamp list \<Rightarrow> timestamp option" where
  "max_timestamp ts = agg_by (\<lambda>t u. timestamp_le u t) ts"

fun join_with :: "string \<Rightarrow> string list \<Rightarrow> string" where
  "join_with sep [] = []"
| "join_with sep [x] = x"
| "join_with sep (x # y # ys) = x @ sep @ join_with sep (y # ys)"

definition string_agg :: "string \<Rightarrow> string list \<Rightarrow> string option" where
  "string_agg sep xs = (if xs = [] then None else Some (join_with sep xs))"

definition non_null :: "'a option list \<Rightarrow> 'a list" where
  "non_null xs = concat (map (\<lambda>x. case x of None \<Rightarrow> [] | Some v \<Rightarrow> [v]) xs)"

definition order_by_desc :: "('a \<Rightarrow> nat) \<Rightarrow> 'a list \<Rightarrow> 'a list" where
  "order_by_desc k rows = sort_key (\<lambda>r. - int (k r)) rows"

section \<open>Health intelligence: disease patterns\<close>

text \<open>The patient's \<open>disease_history\<close> rows diagnosed within the last six months.\<close>

definition recent_diseases :: "db \<Rightarrow> date \<Rightarrow> nat \<Rightarrow> disease_history_row list" where
  "recent_diseases s today patient_id =
     filter (\<lambda>d. dh_patient_id d = Some patient_id \<and>
                  date_le (minus_months 6 today) (dh_diagnosed_date d))
       (disease_history s)"

record disease_group =
  dg_disease_name :: string
  dg_frequency :: nat
  dg_first_occurrence :: "date option"
  dg_last_occurrence :: "date option"

definition select_disease_patterns :: "db \<Rightarrow> date \<Rightarrow> nat \<Rightarrow> disease_group list" where
  "select_disease_patterns s today patient_id =
     (let rows = recent_diseases s today patient_id
      in order_by_desc dg_frequency
           (map (\<lambda>n. let g = filter (\<lambda>d. dh_disease_name d = n) rows
                      in \<lparr>dg_disease_name = n, dg_frequency = length g,
                          dg_first_occurrence = min_date (map dh_diagnosed_date g),
                          dg_last_occurrence = max_date (map dh_diagnosed_date g)\<rparr>)
              (remdups (map dh_disease_name rows))))"

record disease_pattern =
  dp_disease_name :: string
  dp_frequency :: nat
  dp_first_occurrence :: "date option"
  dp_last_occurrence :: "date option"
  dp_is_chronic :: bool
  dp_risk_assessment :: string

definition disease_pattern_of :: "disease_group \<Rightarrow> disease_pattern" where
  "disease_pattern_of disease =
     \<lparr>dp_disease_name = dg_disease_name disease,
      dp_frequency = dg_frequency disease,
      dp_first_occurrence = dg_first_occurrence disease,
      dp_last_occurrence = dg_last_occurrence disease,
      dp_is_chronic = (dg_frequency disease \<ge> 3),
      dp_risk_assessment =
        (if dg_frequency disease \<ge> 3
         then ''Possible chronic condition - recommend specialist consultation''
         else if dg_frequency disease = 2
         then ''Recurring pattern detected - monitor closely''
         else ''Single occurrence - standard monitoring'')\<rparr>"

definition detectDiseasePatterns :: "faults \<Rightarrow> timestamp \<Rightarrow> db \<Rightarrow> nat \<Rightarrow> disease_pattern list" where
  "detectDiseasePatterns fs now s patient_id =
     (case pool_query fs 0 (select_disease_patterns s (ts_date now) patient_id) of
        Inl err \<Rightarrow> []
      | Inr rows \<Rightarrow> map disease_pattern_of rows)"

section \<open>Health intelligence: allergy risks\<close>

text \<open>
  \<open>prescriptions pr JOIN appointments a ON pr.appointment_id = a.appointment_id WHERE
  a.patient_id = $1\<close>: one copy of the prescription for each matching appointment.
\<close>

definition patient_prescriptions :: "db \<Rightarrow> nat \<Rightarrow> prescription list" where
  "patient_prescriptions s patient_id =
     concat (map (\<lambda>pr.
       map (\<lambda>a. pr)
         (filter (\<lambda>a. pr_appointment_id pr = Some (a_appointment_id a) \<and>
                       a_patient_id a = Some patient_id)
            (appointments s)))
       (prescriptions s))"

record prescription_risk_row =
  prr_medicine_name :: string
  prr_dosage :: string
  prr_times_prescribed :: nat
  prr_allergy_reports :: nat
  prr_reported_side_effects :: "string list option"

definition allergy_reports_of :: "prescription list \<Rightarrow> nat" where
  "allergy_reports_of g = length (filter (\<lambda>pr. pr_reported_allergy pr = Some True) g)"

definition array_agg_distinct :: "string option list \<Rightarrow> string list option" where
  "array_agg_distinct xs = (if non_null xs = [] then None else Some (remdups (non_null xs)))"

definition select_prescription_risks :: "db \<Rightarrow> nat \<Rightarrow> prescription_risk_row list" where
  "select_prescription_risks s patient_id =
     (let rows = patient_prescriptions s patient_id
      in filter (\<lambda>r. prr_allergy_reports r > 0 \<or> prr_times_prescribed r \<ge> 4)
           (map (\<lambda>(n, d). let g = filter (\<lambda>pr. pr_medicine_name pr = n \<and> pr_dosage pr = d) rows
                           in \<lparr>prr_medicine_name = n, prr_dosage = d,
                               prr_times_prescribed = length g,
                               prr_allergy_reports = allergy_reports_of g,
                               prr_reported_side_effects =
                                 array_agg_distinct (map pr_side_effects g)\<rparr>)
              (remdups (map (\<lambda>pr. (pr_medicine_name pr, pr_dosage pr)) rows))))"

record known_side_effect_row =
  kse_medicine_name :: string
  kse_side_effect :: string
  kse_severity :: "string option"

text \<open>
  \<open>ORDER BY mse.severity DESC\<close> on text: \<open>NULL\<close> first, then by the collation; the
  \<open>CHECK\<close> on the column admits three values, in descending order severe, moderate,
  mild.
\<close>

definition severity_rank :: "string option \<Rightarrow> nat" where
  "severity_rank v =
     (case v of None \<Rightarrow> 4
      | Some t \<Rightarrow> if t = ''severe'' then 3 else if t = ''moderate'' then 2
                  else if t = ''mild'' then 1 else 0)"

definition select_known_side_effects :: "db \<Rightarrow> nat \<Rightarrow> known_side_effect_row list" where
  "select_known_side_effects s patient_id =
     order_by_desc (\<lambda>r. severity_rank (kse_severity r))
       (remdups
          (concat (map (\<lambda>pr.
             map (\<lambda>mse. \<lparr>kse_medicine_name = pr_medicine_name pr,
                          kse_side_effect = mse_side_effect mse,
                          kse_severity = mse_severity mse\<rparr>)
               (filter (\<lambda>mse. pr_medicine_name pr = mse_medicine_name mse)
                  (medicine_side_effects s)))
             (patient_prescriptions s patient_id))))"

record prescription_risk =
  risk_medicine_name :: string
  risk_dosage :: string
  risk_times_prescribed :: nat
  risk_allergy_reports :: nat
  risk_reported_side_effects :: "string list option"
  risk_level :: string
  risk_action :: string

record known_side_effect =
  effect_medicine_name :: string
  effect_side_effect :: string
  effect_severity :: "string option"
  effect_alert_level :: string

record allergy_risks =
  prescriptionRisks :: "prescription_risk list"
  knownSideEffects :: "known_side_effect list"

definition prescription_risk_of :: "prescription_risk_row \<Rightarrow> prescription_risk" where
  "prescription_risk_of risk =
     \<lparr>risk_medicine_name = prr_medicine_name risk,
      risk_dosage = prr_dosage risk,
      risk_times_prescribed = prr_times_prescribed risk,
      risk_allergy_reports = prr_allergy_reports risk,
      risk_reported_side_effects = prr_reported_side_effects risk,
      risk_level = (if prr_allergy_reports risk > 0 then ''ALLERGY_ALERT'' else ''FREQUENCY_WARNING''),
      risk_action =
        (if prr_allergy_reports risk > 0
         then warning_sign @ '' ALLERGY RISK: '' @ prr_medicine_name risk @ '' has '' @
              show_nat (prr_allergy_reports risk) @ '' allergy report(s)''
         else warning_sign @ '' HIGH FREQUENCY: '' @ prr_medicine_name risk @ '' prescribed '' @
              show_nat (prr_times_prescribed risk) @ '' times'')\<rparr>"

definition known_side_effect_of :: "known_side_effect_row \<Rightarrow> known_side_effect" where
  "known_side_effect_of effect =
     \<lparr>effect_medicine_name = kse_medicine_name effect,
      effect_side_effect = kse_side_effect effect,
      effect_severity = kse_severity effect,
      effect_alert_level =
        (if kse_severity effect = Some ''severe'' then ''CRITICAL''
         else if kse_severity effect = Some ''moderate'' then ''WARNING'' else ''INFO'')\<rparr>"

definition detectAllergyRisks :: "faults \<Rightarrow> db \<Rightarrow> nat \<Rightarrow> allergy_risks" where
  "detectAllergyRisks fs s patient_id =
     (case pool_query fs 0 (select_prescription_risks s patient_id) of
        Inl err \<Rightarrow> \<lparr>prescriptionRisks = [], knownSideEffects = []\<rparr>
      | Inr risks \<Rightarrow>
          (case pool_query fs 1 (select_known_side_effects s patient_id) of
             Inl err \<Rightarrow> \<lparr>prescriptionRisks = [], knownSideEffects = []\<rparr>
           | Inr effects \<Rightarrow>
               \<lparr>prescriptionRisks = map prescription_risk_of risks,
                knownSideEffects = map known_side_effect_of effects\<rparr>))"

section \<open>Health intelligence: the risk score\<close>

text \<open>\<open>x || d\<close> on a nullable number: \<open>null\<close>, \<open>undefined\<close> and \<open>0\<close> give \<open>d\<close>.\<close>

definition or_default :: "int option \<Rightarrow> int \<Rightarrow> int" where
  "or_default x d = (case x of None \<Rightarrow> d | Some v \<Rightarrow> if v = 0 then d else v)"

definition select_age :: "db \<Rightarrow> nat \<Rightarrow> int option list" where
  "select_age s patient_id = map p_age (filter (\<lambda>p. p_patient_id p = patient_id) (patients s))"

record medicine_freq_row =
  mf_total_prescriptions :: nat
  mf_unique_medicines :: nat

definition select_medicine_freq :: "db \<Rightarrow> date \<Rightarrow> nat \<Rightarrow> medicine_freq_row list" where
  "select_medicine_freq s today patient_id =
     (let rows = filter (\<lambda>pr. case pr_created_at pr of None \<Rightarrow> False
                              | Some t \<Rightarrow> date_le (minus_months 2 today) (ts_date t))
                   (patient_prescriptions s patient_id)
      in [\<lparr>mf_total_prescriptions = length rows,
           mf_unique_medicines = length (remdups (map pr_medicine_name rows))\<rparr>])"

record disease_freq_row =
  df_total_diseases :: nat
  df_unique_diseases :: nat
  df_max_single_disease :: nat

definition select_disease_freq :: "db \<Rightarrow> date \<Rightarrow> nat \<Rightarrow> disease_freq_row list" where
  "select_disease_freq s today patient_id =
     (let rows = recent_diseases s today patient_id;
          names = remdups (map dh_disease_name rows)
      in [\<lparr>df_total_diseases = length rows,
           df_unique_diseases = length names,
           df_max_single_disease =
             foldr max (map (\<lambda>n. length (filter (\<lambda>d. dh_disease_name d = n) rows)) names) 0\<rparr>])"

definition select_allergy_count :: "db \<Rightarrow> nat \<Rightarrow> nat list" where
  "select_allergy_count s patient_id =
     [length (filter (\<lambda>pr. pr_reported_allergy pr = Some True)
                (patient_prescriptions s patient_id))]"

text \<open>
  The four sub-scores. \<open>Math.floor\<close> of the quotient is taken in exact integer
  arithmetic (division on \<open>int\<close> rounds down, as \<open>Math.floor\<close> does).
\<close>

definition ageFactor :: "int \<Rightarrow> int" where
  "ageFactor age = min 15 ((age * 15) div 80)"

definition medicineFactor :: "nat \<Rightarrow> int" where
  "medicineFactor totalPrescriptions = min 30 ((int totalPrescriptions * 30) div 10)"

definition diseaseFactor :: "nat \<Rightarrow> int" where
  "diseaseFactor totalDiseases = min 25 ((int totalDiseases * 25) div 8)"

definition allergyFactor :: "nat \<Rightarrow> int" where
  "allergyFactor allergyIncidents = min 20 (int allergyIncidents * 5)"

definition chronicBonus :: "nat \<Rightarrow> int" where
  "chronicBonus maxSingleDisease = (if maxSingleDisease \<ge> 3 then 10 else 0)"

definition riskLevel :: "int \<Rightarrow> string" where
  "riskLevel finalScore =
     (if finalScore \<ge> 80 then ''critical''
      else if finalScore \<ge> 60 then ''high''
      else if finalScore \<ge> 40 then ''moderate''
      else if finalScore \<ge> 20 then ''low''
      else ''low'')"

definition riskDescription :: "int \<Rightarrow> string" where
  "riskDescription finalScore =
     (if finalScore \<ge> 80 then red_circle @ '' CRITICAL: Immediate medical attention recommended''
      else if finalScore \<ge> 60 then yellow_circle @ '' HIGH RISK: Schedule specialist consultation''
      else if finalScore \<ge> 40 then orange_circle @ '' MODERATE: Monitor health patterns closely''
      else if finalScore \<ge> 20 then green_circle @ '' LOW RISK: Continue regular check-ups''
      else check_mark @ '' Your health is in good condition'')"

record breakdown =
  bd_age_factor :: int
  bd_medicine_factor :: int
  bd_disease_factor :: int
  bd_allergy_factor :: int
  bd_chronic_bonus :: int

record risk_result =
  rr_score :: int
  rr_level :: string
  rr_description :: string
  rr_factors :: factors
  rr_breakdown :: "breakdown option"

text \<open>
  The write is the statement \<open>INSERT INTO health_risk_score (patient_id, risk_score,
  risk_level, factors) VALUES ($1, $2, $3, $4) ON CONFLICT (patient_id,
  calculated_at::DATE) DO UPDATE SET risk_score = $2, risk_level = $3, factors = $4\<close>.
  The server parses a statement before it runs it. An element of a conflict target is a
  column name, a function call or an expression in parentheses; the second element
  written here is a cast with no parentheses around it, which is none of the three (the
  index of the schema is written \<open>DATE(calculated_at)\<close>).
\<close>

datatype target_elem =
    Column_name string
  | Function_call string string
  | Parenthesised target_elem
  | Bare_cast string string

fun accepted_index_elem :: "target_elem \<Rightarrow> bool" where
  "accepted_index_elem (Column_name c) = True"
| "accepted_index_elem (Function_call f c) = True"
| "accepted_index_elem (Parenthesised e) = True"
| "accepted_index_elem (Bare_cast c t) = False"

definition conflict_target :: "target_elem list" where
  "conflict_target = [Column_name ''patient_id'', Bare_cast ''calculated_at'' ''DATE'']"

text \<open>
  A statement whose conflict target does not parse is refused with a syntax error:
  nothing is drawn from the sequence, no constraint is tested and no row is written.
  Once parsed, the statement runs against the schema: the key is drawn from the
  sequence, \<open>calculated_at\<close> defaults to \<open>NOW()\<close>; the two \<open>CHECK\<close>s are tested on the
  proposed row; a row of the same patient and calendar day (the unique index
  \<open>idx_health_risk_per_day\<close>) is updated in place, keeping its key and its
  \<open>calculated_at\<close>; otherwise the row is appended, unless the patient is missing (foreign
  key).
\<close>

definition same_patient_day :: "nat \<Rightarrow> date \<Rightarrow> health_risk_score_row \<Rightarrow> bool" where
  "same_patient_day patient_id d r =
     (hrs_patient_id r = Some patient_id \<and> map_option ts_date (hrs_calculated_at r) = Some d)"

definition upsert_health_risk_score ::
  "timestamp \<Rightarrow> db \<Rightarrow> nat \<Rightarrow> int \<Rightarrow> string \<Rightarrow> factors \<Rightarrow> (error + unit) \<times> db" where
  "upsert_health_risk_score now s patient_id score level fctrs =
     (if \<not> list_all accepted_index_elem conflict_target
      then (Inl (DatabaseError ''syntax error at or near ::''), s)
      else
     (let k = Suc (health_risk_score_risk_id_seq s);
          s1 = s\<lparr>health_risk_score_risk_id_seq := k\<rparr>
      in if \<not> (0 \<le> score \<and> score \<le> 100) \<or>
            level \<notin> set [''low'', ''moderate'', ''high'', ''critical'']
         then (Inl (DatabaseError ''violates check constraint''), s1)
         else if filter (same_patient_day patient_id (ts_date now)) (health_risk_score s) \<noteq> []
         then (Inr (),
               s1\<lparr>health_risk_score :=
                    map (\<lambda>r. if same_patient_day patient_id (ts_date now) r
                              then r\<lparr>hrs_risk_score := Some score, hrs_risk_level := Some level,
                                     hrs_factors := fctrs\<rparr>
                              else r)
                      (health_risk_score s)\<rparr>)
         else if filter (\<lambda>p. p_patient_id p = patient_id) (patients s) = []
         then (Inl (DatabaseError ''violates foreign key constraint''), s1)
         else (Inr (),
               s1\<lparr>health_risk_score := health_risk_score s @
                    [\<lparr>hrs_risk_id = k, hrs_patient_id = Some patient_id,
                      hrs_risk_score = Some score, hrs_risk_level = Some level,
                      hrs_factors = fctrs, hrs_calculated_at = Some now\<rparr>]\<rparr>)))"

text \<open>The computation between the four reads and the write.\<close>

definition score_result ::
  "int option list \<Rightarrow> medicine_freq_row list \<Rightarrow> disease_freq_row list \<Rightarrow> nat list \<Rightarrow> risk_result" where
  "score_result patientData medicineFreq diseaseFreq allergyCount =
     (let age = or_default (case patientData of [] \<Rightarrow> None | a # rest \<Rightarrow> a) 30;
          totalPrescriptions = (case medicineFreq of [] \<Rightarrow> 0 | r # rest \<Rightarrow> mf_total_prescriptions r);
          totalDiseases = (case diseaseFreq of [] \<Rightarrow> 0 | r # rest \<Rightarrow> df_total_diseases r);
          maxSingleDisease = (case diseaseFreq of [] \<Rightarrow> 0 | r # rest \<Rightarrow> df_max_single_disease r);
          allergyIncidents = (case allergyCount of [] \<Rightarrow> 0 | n # rest \<Rightarrow> n);
          score = ageFactor age + medicineFactor totalPrescriptions + diseaseFactor totalDiseases +
                  chronicBonus maxSingleDisease + allergyFactor allergyIncidents;
          finalScore = min 100 score
      in \<lparr>rr_score = finalScore,
          rr_level = riskLevel finalScore,
          rr_description = riskDescription finalScore,
          rr_factors =
            [(''age_factor'', Entry (ageFactor age)
                (''Age ('' @ show_int age @ '' years): +'' @ show_int (ageFactor age))),
             (''medicine_factor'', Entry (medicineFactor totalPrescriptions)
                (''High medicine usage ('' @ show_nat totalPrescriptions @ '' prescriptions): +'' @
                 show_int (medicineFactor totalPrescriptions)))] @
            (if maxSingleDisease \<ge> 3
             then [(''chronic_condition'', Entry 10 ''Chronic disease detected: +10'')] else []) @
            [(''disease_factor'', Entry (diseaseFactor totalDiseases)
                (''Disease frequency ('' @ show_nat totalDiseases @ '' diagnosed): +'' @
                 show_int (diseaseFactor totalDiseases))),
             (''allergy_factor'', Entry (allergyFactor allergyIncidents)
                (''Allergy incidents ('' @ show_nat allergyIncidents @ ''): +'' @
                 show_int (allergyFactor allergyIncidents))),
             (''summary'', Summary (riskDescription finalScore))],
          rr_breakdown =
            Some \<lparr>bd_age_factor = ageFactor age,
                  bd_medicine_factor = medicineFactor totalPrescriptions,
                  bd_disease_factor = diseaseFactor totalDiseases,
                  bd_allergy_factor = allergyFactor allergyIncidents,
                  bd_chronic_bonus = chronicBonus maxSingleDisease\<rparr>\<rparr>)"

text \<open>The body of the \<open>try\<close>: four reads, the computation, the write.\<close>

definition calculateHealthRiskScore_try ::
  "faults \<Rightarrow> timestamp \<Rightarrow> db \<Rightarrow> nat \<Rightarrow> (error + risk_result) \<times> db" where
  "calculateHealthRiskScore_try fs now s patient_id =
     (case pool_query fs 0 (select_age s patient_id) of
        Inl err \<Rightarrow> (Inl err, s)
      | Inr patientData \<Rightarrow>
     (case pool_query fs 1 (select_medicine_freq s (ts_date now) patient_id) of
        Inl err \<Rightarrow> (Inl err, s)
      | Inr medicineFreq \<Rightarrow>
     (case pool_query fs 2 (select_disease_freq s (ts_date now) patient_id) of
        Inl err \<Rightarrow> (Inl err, s)
      | Inr diseaseFreq \<Rightarrow>
     (case pool_query fs 3 (select_allergy_count s patient_id) of
        Inl err \<Rightarrow> (Inl err, s)
      | Inr allergyCount \<Rightarrow>
     (let res = score_result patientData medicineFreq diseaseFreq allergyCount
      in case pool_query fs 4 () of
           Inl err \<Rightarrow> (Inl err, s)
         | Inr u \<Rightarrow>
            (case upsert_health_risk_score now s patient_id
                    (rr_score res) (rr_level res) (rr_factors res) of
               (Inl err, s1) \<Rightarrow> (Inl err, s1)
             | (Inr u1, s1) \<Rightarrow> (Inr res, s1)))))))"

definition risk_unknown :: risk_result where
  "risk_unknown =
     \<lparr>rr_score = 0, rr_level = ''unknown'',
      rr_description = ''Unable to calculate risk score'',
      rr_factors = [], rr_breakdown = None\<rparr>"

definition calculateHealthRiskScore ::
  "faults \<Rightarrow> timestamp \<Rightarrow> db \<Rightarrow> nat \<Rightarrow> risk_result \<times> db" where
  "calculateHealthRiskScore fs now s patient_id =
     (case calculateHealthRiskScore_try fs now s patient_id of
        (Inl err, s1) \<Rightarrow> (risk_unknown, s1)
      | (Inr res, s1) \<Rightarrow> (res, s1))"

section \<open>Medicine repetition\<close>

text \<open>
  The rows of \<open>prescriptions p LEFT JOIN appointments a ON p.appointment_id =
  a.appointment_id LEFT JOIN disease_history d ON a.patient_id = d.patient_id WHERE
  a.patient_id = $1\<close>: the prescription and the joined disease row (or \<open>NULL\<close>),
  first for one prescription, then for the table.
\<close>

definition repetition_rows ::
  "db \<Rightarrow> nat \<Rightarrow> prescription \<Rightarrow> (prescription \<times> disease_history_row option) list" where
  "repetition_rows s patientId p =
     concat (map (\<lambda>a.
       (case a of None \<Rightarrow> []
        | Some a1 \<Rightarrow>
            if a_patient_id a1 = Some patientId
            then map (\<lambda>d. (p, d))
                   (left_join (\<lambda>d. a_patient_id a1 \<noteq> None \<and> a_patient_id a1 = dh_patient_id d)
                      (disease_history s))
            else []))
       (left_join (\<lambda>a. pr_appointment_id p = Some (a_appointment_id a)) (appointments s)))"

definition select_repetition_join :: "db \<Rightarrow> nat \<Rightarrow> (prescription \<times> disease_history_row option) list" where
  "select_repetition_join s patientId =
     concat (map (repetition_rows s patientId) (prescriptions s))"

record repetition_row =
  rep_medicine_name :: string
  rep_prescription_count :: nat
  rep_associated_diseases :: "string option"
  rep_last_prescribed :: "timestamp option"

definition select_medicine_repetition :: "db \<Rightarrow> nat \<Rightarrow> repetition_row list" where
  "select_medicine_repetition s patientId =
     (let rows = select_repetition_join s patientId
      in order_by_desc rep_prescription_count
           (filter (\<lambda>r. rep_prescription_count r > 2)
              (map (\<lambda>n. let g = filter (\<lambda>(p, d). pr_medicine_name p = n) rows
                         in \<lparr>rep_medicine_name = n,
                             rep_prescription_count = length g,
                             rep_associated_diseases =
                               string_agg '', ''
                                 (remdups (non_null (map (\<lambda>(p, d). map_option dh_disease_name d) g))),
                             rep_last_prescribed =
                               max_timestamp (non_null (map (\<lambda>(p, d). pr_created_at p) g))\<rparr>)
                 (remdups (map (\<lambda>(p, d). pr_medicine_name p) rows)))))"

record medicine_repetition =
  med_medicine_name :: string
  med_prescription_count :: nat
  med_associated_diseases :: "string option"
  med_last_prescribed :: "timestamp option"
  med_risk_level :: string
  med_warning :: string

definition medicine_repetition_of :: "repetition_row \<Rightarrow> medicine_repetition" where
  "medicine_repetition_of medicine =
     \<lparr>med_medicine_name = rep_medicine_name medicine,
      med_prescription_count = rep_prescription_count medicine,
      med_associated_diseases = rep_associated_diseases medicine,
      med_last_prescribed = rep_last_prescribed medicine,
      med_risk_level = (if rep_prescription_count medicine > 4 then ''high'' else ''moderate''),
      med_warning =
        (if rep_prescription_count medicine > 4
         then rep_medicine_name medicine @ '' prescribed '' @
              show_nat (rep_prescription_count medicine) @ '' times '' @ en_dash @
              '' risk of dependency.''
         else rep_medicine_name medicine @ '' prescribed '' @
              show_nat (rep_prescription_count medicine) @ '' times '' @ en_dash @
              '' monitor usage.'')\<rparr>"

definition detectMedicineRepetition :: "faults \<Rightarrow> db \<Rightarrow> nat \<Rightarrow> medicine_repetition list" where
  "detectMedicineRepetition fs s patientId =
     (case pool_query fs 0 (select_medicine_repetition s patientId) of
        Inl err \<Rightarrow> []
      | Inr rows \<Rightarrow> map medicine_repetition_of rows)"

record usage_stats =
  us_total_unique_medicines :: nat
  us_total_prescriptions :: nat
  us_latest_prescription :: "timestamp option"
  us_first_prescription :: "timestamp option"

definition select_usage_stats :: "db \<Rightarrow> nat \<Rightarrow> usage_stats list" where
  "select_usage_stats s patientId =
     (let rows = concat (map (\<lambda>p.
                   concat (map (\<lambda>a. case a of None \<Rightarrow> []
                                      | Some a1 \<Rightarrow> if a_patient_id a1 = Some patientId then [p] else [])
                     (left_join (\<lambda>a. pr_appointment_id p = Some (a_appointment_id a))
                        (appointments s))))
                   (prescriptions s))
      in [\<lparr>us_total_unique_medicines = length (remdups (map pr_medicine_name rows)),
           us_total_prescriptions = length rows,
           us_latest_prescription = max_timestamp (non_null (map pr_created_at rows)),
           us_first_prescription = min_timestamp (non_null (map pr_created_at rows))\<rparr>])"

definition usage_stats_default :: usage_stats where
  "usage_stats_default =
     \<lparr>us_total_unique_medicines = 0, us_total_prescriptions = 0,
      us_latest_prescription = None, us_first_prescription = None\<rparr>"

definition getMedicineUsageStats :: "faults \<Rightarrow> db \<Rightarrow> nat \<Rightarrow> usage_stats" where
  "getMedicineUsageStats fs s patientId =
     (case pool_query fs 0 (select_usage_stats s patientId) of
        Inl err \<Rightarrow> usage_stats_default
      | Inr [] \<Rightarrow> usage_stats_default
      | Inr (r # rest) \<Rightarrow> r)"

section \<open>The enhanced risk score\<close>

record repeated_disease_row =
  rd_disease_name :: string
  rd_count :: nat

definition select_repeated_diseases :: "db \<Rightarrow> nat \<Rightarrow> repeated_disease_row list" where
  "select_repeated_diseases s patientId =
     (let rows = filter (\<lambda>d. dh_patient_id d = Some patientId) (disease_history s)
      in filter (\<lambda>r. rd_count r \<ge> 3)
           (map (\<lambda>n. \<lparr>rd_disease_name = n,
                       rd_count = length (filter (\<lambda>d. dh_disease_name d = n) rows)\<rparr>)
              (remdups (map dh_disease_name rows))))"

definition select_doctor_count :: "db \<Rightarrow> nat \<Rightarrow> nat list" where
  "select_doctor_count s patientId =
     [length (remdups (non_null (map a_doctor_id
        (filter (\<lambda>a. a_patient_id a = Some patientId) (appointments s)))))]"

record enhanced_factor =
  ef_name :: string
  ef_value :: int
  ef_points :: int
  ef_description :: string

record enhanced_details =
  ed_calculated_at :: timestamp
  ed_age :: int
  ed_doctor_count :: nat
  ed_total_prescriptions :: nat
  ed_repeated_diseases :: nat
  ed_high_risk_medicines :: nat

record enhanced_result =
  er_score :: int
  er_level :: string
  er_factors :: "enhanced_factor list"
  er_details :: "enhanced_details option"
  er_error :: "string option"

definition enhancedLevel :: "int \<Rightarrow> string" where
  "enhancedLevel score =
     (if score \<ge> 75 then ''critical''
      else if score \<ge> 50 then ''high''
      else if score \<ge> 25 then ''moderate''
      else ''low'')"

text \<open>
  The six flags, in the order the code tests them, each with the points it adds and the
  entry it pushes.
\<close>

definition enhanced_factors ::
  "int \<Rightarrow> nat \<Rightarrow> nat \<Rightarrow> nat \<Rightarrow> nat \<Rightarrow> enhanced_factor list" where
  "enhanced_factors age repeatedDiseases highRisk doctorCount totalPrescriptions =
     (if age > 50
      then [\<lparr>ef_name = ''Age Factor'', ef_value = age, ef_points = 10,
              ef_description = ''Age '' @ show_int age @ '' exceeds threshold of 50''\<rparr>]
      else []) @
     (if repeatedDiseases > 0
      then [\<lparr>ef_name = ''Repeated Diseases'', ef_value = int repeatedDiseases, ef_points = 20,
              ef_description = show_nat repeatedDiseases @ '' disease(s) diagnosed multiple times''\<rparr>]
      else []) @
     (if highRisk > 0
      then [\<lparr>ef_name = ''Repeated Medicines'', ef_value = int highRisk, ef_points = 20,
              ef_description = show_nat highRisk @ '' medicine(s) prescribed > 4 times''\<rparr>]
      else []) @
     (if doctorCount > 2
      then [\<lparr>ef_name = ''Multiple Doctors'', ef_value = int doctorCount, ef_points = 10,
              ef_description = ''Patient seeing '' @ show_nat doctorCount @ '' different doctors''\<rparr>]
      else []) @
     (if repeatedDiseases > 2
      then [\<lparr>ef_name = ''Chronic Conditions'', ef_value = int repeatedDiseases, ef_points = 15,
              ef_description = ''Multiple chronic conditions detected''\<rparr>]
      else []) @
     (if totalPrescriptions > 10
      then [\<lparr>ef_name = ''High Medicine Usage'', ef_value = int totalPrescriptions, ef_points = 15,
              ef_description = show_nat totalPrescriptions @ '' total prescriptions''\<rparr>]
      else [])"

definition enhanced_unknown :: enhanced_result where
  "enhanced_unknown =
     \<lparr>er_score = 0, er_level = ''unknown'', er_factors = [], er_details = None, er_error = None\<rparr>"

text \<open>
  The body of the \<open>try\<close>. The queries are numbered in the order they are issued: the age
  (0), the repeated diseases (1), the query of \<open>detectMedicineRepetition\<close> (2), the doctor
  count (3), the query of \<open>getMedicineUsageStats\<close> (4). \<open>doctorsRes.rows[0]\<close> of an empty
  result would throw a \<open>TypeError\<close>.
\<close>

definition calculateEnhancedHealthRiskScore_try ::
  "faults \<Rightarrow> timestamp \<Rightarrow> db \<Rightarrow> nat \<Rightarrow> error + enhanced_result" where
  "calculateEnhancedHealthRiskScore_try fs now s patientId =
     (case pool_query fs 0 (select_age s patientId) of
        Inl err \<Rightarrow> Inl err
      | Inr [] \<Rightarrow> Inr enhanced_unknown
      | Inr (row # rest) \<Rightarrow>
     (let age = or_default row 0 in
      case pool_query fs 1 (select_repeated_diseases s patientId) of
        Inl err \<Rightarrow> Inl err
      | Inr diseaseRows \<Rightarrow>
     (let repeatedDiseases = length diseaseRows;
          medicines = detectMedicineRepetition (\<lambda>i. fs (i + 2)) s patientId;
          highRiskMedicines = filter (\<lambda>m. med_prescription_count m > 4) medicines in
      case pool_query fs 3 (select_doctor_count s patientId) of
        Inl err \<Rightarrow> Inl err
      | Inr [] \<Rightarrow> Inl (Error ''Cannot read properties of undefined'')
      | Inr (doctor_count # rest1) \<Rightarrow>
     (let doctorCount = doctor_count;
          medicineStats = getMedicineUsageStats (\<lambda>i. fs (i + 4)) s patientId;
          fctrs = enhanced_factors age repeatedDiseases (length highRiskMedicines) doctorCount
                    (us_total_prescriptions medicineStats);
          score = min (sum_list (map ef_points fctrs)) 100
      in Inr \<lparr>er_score = score,
              er_level = enhancedLevel score,
              er_factors = fctrs,
              er_details =
                Some \<lparr>ed_calculated_at = now, ed_age = age, ed_doctor_count = doctorCount,
                      ed_total_prescriptions = us_total_prescriptions medicineStats,
                      ed_repeated_diseases = repeatedDiseases,
                      ed_high_risk_medicines = length highRiskMedicines\<rparr>,
              er_error = None\<rparr>))))"

definition calculateEnhancedHealthRiskScore ::
  "faults \<Rightarrow> timestamp \<Rightarrow> db \<Rightarrow> nat \<Rightarrow> enhanced_result" where
  "calculateEnhancedHealthRiskScore fs now s patientId =
     (case calculateEnhancedHealthRiskScore_try fs now s patientId of
        Inl err \<Rightarrow> enhanced_unknown\<lparr>er_error := Some (err_message err)\<rparr>
      | Inr res \<Rightarrow> res)"

section \<open>Example stores\<close>

text \<open>
  A store for the scorers, read on 14 March 2025. Patient 101 (aged 65) has one
  appointment with two recent prescriptions, one of them flagged as an allergy, and three
  recent diagnoses of the same disease. Patient 102 has a negative age on file and one
  flagged prescription. Patient 999 does not exist.
\<close>

definition risk_db :: db where
  "risk_db =
     \<lparr>patients = [\<lparr>p_patient_id = 101, p_age = Some 65\<rparr>, \<lparr>p_patient_id = 102, p_age = Some (- 16)\<rparr>],
      doctors = [\<lparr>d_doctor_id = 7\<rparr>],
      appointments =
        [\<lparr>a_appointment_id = 11, a_patient_id = Some 101, a_doctor_id = Some 7\<rparr>,
         \<lparr>a_appointment_id = 12, a_patient_id = Some 102, a_doctor_id = Some 7\<rparr>],
      prescriptions =
        [\<lparr>pr_prescription_id = 21, pr_appointment_id = Some 11, pr_medicine_name = ''Aspirin'',
          pr_dosage = ''500mg'', pr_created_at = Some (Timestamp (Date 2025 3 1) 0),
          pr_side_effects = Some ''Rash'', pr_reported_allergy = Some True\<rparr>,
         \<lparr>pr_prescription_id = 22, pr_appointment_id = Some 11, pr_medicine_name = ''Metformin'',
          pr_dosage = ''1g'', pr_created_at = Some (Timestamp (Date 2025 3 2) 0),
          pr_side_effects = None, pr_reported_allergy = Some False\<rparr>,
         \<lparr>pr_prescription_id = 23, pr_appointment_id = Some 12, pr_medicine_name = ''Aspirin'',
          pr_dosage = ''500mg'', pr_created_at = Some (Timestamp (Date 2025 3 3) 0),
          pr_side_effects = None, pr_reported_allergy = Some True\<rparr>],
      medicine_side_effects = [],
      health_risk_score = [],
      disease_history =
        [\<lparr>dh_patient_id = Some 101, dh_disease_name = ''Diabetes'', dh_diagnosed_date = Date 2024 12 1\<rparr>,
         \<lparr>dh_patient_id = Some 101, dh_disease_name = ''Diabetes'', dh_diagnosed_date = Date 2025 1 10\<rparr>,
         \<lparr>dh_patient_id = Some 101, dh_disease_name = ''Diabetes'', dh_diagnosed_date = Date 2025 2 20\<rparr>],
      messages = [],
      health_risk_score_risk_id_seq = 0, messages_message_id_seq = 0\<rparr>"

definition evening :: timestamp where
  "evening = Timestamp (Date 2025 3 14) 72000"

text \<open>The schedule in which only the \<open>i\<close>-th query is rejected.\<close>

definition fault_at :: "nat \<Rightarrow> faults" where
  "fault_at i = (\<lambda>j. if j = i then Some ''connection terminated'' else None)"

section \<open>Vocabulary of the properties\<close>

text \<open>What the four reads and the computation give on a store, before the write.\<close>

definition computed_result :: "db \<Rightarrow> date \<Rightarrow> nat \<Rightarrow> risk_result" where
  "computed_result s today patient_id =
     score_result (select_age s patient_id) (select_medicine_freq s today patient_id)
       (select_disease_freq s today patient_id) (select_allergy_count s patient_id)"

text \<open>No age on file for the patient is negative.\<close>

definition stored_age_nonneg :: "db \<Rightarrow> nat \<Rightarrow> bool" where
  "stored_age_nonneg s patient_id =
     list_all (\<lambda>a. case a of None \<Rightarrow> True | Some v \<Rightarrow> 0 \<le> v) (select_age s patient_id)"

text \<open>
  The foreign key of \<open>health_risk_score\<close>: every row names no patient or one of the
  \<open>patients\<close> table.
\<close>

definition references_patients :: "db \<Rightarrow> bool" where
  "references_patients s =
     list_all (\<lambda>r. case hrs_patient_id r of None \<Rightarrow> True
                    | Some p \<Rightarrow> filter (\<lambda>q. p_patient_id q = p) (patients s) \<noteq> [])
       (health_risk_score s)"

text \<open>
  Two calls in a row, the second on the store the first one left; and the risk rows of a
  patient and a calendar day, the key of the unique index.
\<close>

definition twice ::
  "faults \<Rightarrow> timestamp \<Rightarrow> faults \<Rightarrow> timestamp \<Rightarrow> db \<Rightarrow> nat \<Rightarrow> risk_result \<times> db" where
  "twice fs1 now1 fs2 now2 s patient_id =
     calculateHealthRiskScore fs2 now2 (snd (calculateHealthRiskScore fs1 now1 s patient_id)) patient_id"

definition day_rows :: "db \<Rightarrow> nat \<Rightarrow> date \<Rightarrow> health_risk_score_row list" where
  "day_rows s patient_id d = filter (same_patient_day patient_id d) (health_risk_score s)"

text \<open>How often a disease name occurs among the patient's diagnoses of the last six months.\<close>

definition disease_count :: "db \<Rightarrow> date \<Rightarrow> nat \<Rightarrow> string \<Rightarrow> nat" where
  "disease_count s today patient_id n =
     length (filter (\<lambda>d. dh_disease_name d = n) (recent_diseases s today patient_id))"

text \<open>The patient's prescriptions of one medicine at one dosage (a group of the
  \<open>GROUP BY\<close>), and the number of the patient's prescriptions of one medicine.\<close>

definition dosage_group :: "db \<Rightarrow> nat \<Rightarrow> string \<Rightarrow> string \<Rightarrow> prescription list" where
  "dosage_group s patient_id n d =
     filter (\<lambda>pr. pr_medicine_name pr = n \<and> pr_dosage pr = d) (patient_prescriptions s patient_id)"

definition times_prescribed :: "db \<Rightarrow> nat \<Rightarrow> string \<Rightarrow> nat" where
  "times_prescribed s patient_id n =
     length (filter (\<lambda>pr. pr_medicine_name pr = n) (patient_prescriptions s patient_id))"

definition risk_key :: "prescription_risk \<Rightarrow> string \<times> string" where
  "risk_key r = (risk_medicine_name r, risk_dosage r)"

text \<open>A store for the allergy detector. Patient 201 has four unflagged prescriptions of
  Ibuprofen, two at each of two dosages; patient 202 has a single unflagged one. The
  catalog lists a side effect of Ibuprofen.\<close>

definition allergy_db :: db where
  "allergy_db =
     \<lparr>patients = [\<lparr>p_patient_id = 201, p_age = Some 30\<rparr>, \<lparr>p_patient_id = 202, p_age = Some 30\<rparr>],
      doctors = [\<lparr>d_doctor_id = 7\<rparr>],
      appointments =
        [\<lparr>a_appointment_id = 31, a_patient_id = Some 201, a_doctor_id = Some 7\<rparr>,
         \<lparr>a_appointment_id = 32, a_patient_id = Some 202, a_doctor_id = Some 7\<rparr>],
      prescriptions =
        [\<lparr>pr_prescription_id = 41, pr_appointment_id = Some 31, pr_medicine_name = ''Ibuprofen'',
          pr_dosage = ''200mg'', pr_created_at = Some (Timestamp (Date 2025 3 1) 0),
          pr_side_effects = None, pr_reported_allergy = Some False\<rparr>,
         \<lparr>pr_prescription_id = 42, pr_appointment_id = Some 31, pr_medicine_name = ''Ibuprofen'',
          pr_dosage = ''200mg'', pr_created_at = Some (Timestamp (Date 2025 3 2) 0),
          pr_side_effects = None, pr_reported_allergy = Some False\<rparr>,
         \<lparr>pr_prescription_id = 43, pr_appointment_id = Some 31, pr_medicine_name = ''Ibuprofen'',
          pr_dosage = ''400mg'', pr_created_at = Some (Timestamp (Date 2025 3 3) 0),
          pr_side_effects = None, pr_reported_allergy = Some False\<rparr>,
         \<lparr>pr_prescription_id = 44, pr_appointment_id = Some 31, pr_medicine_name = ''Ibuprofen'',
          pr_dosage = ''400mg'', pr_created_at = Some (Timestamp (Date 2025 3 4) 0),
          pr_side_effects = None, pr_reported_allergy = Some False\<rparr>,
         \<lparr>pr_prescription_id = 45, pr_appointment_id = Some 32, pr_medicine_name = ''Ibuprofen'',
          pr_dosage = ''200mg'', pr_created_at = Some (Timestamp (Date 2025 3 5) 0),
          pr_side_effects = None, pr_reported_allergy = Some False\<rparr>],
      medicine_side_effects =
        [\<lparr>mse_medicine_name = ''Ibuprofen'', mse_side_effect = ''Stomach upset'',
          mse_severity = Some ''moderate''\<rparr>],
      health_risk_score = [], disease_history = [], messages = [],
      health_risk_score_risk_id_seq = 0, messages_message_id_seq = 0\<rparr>"

text \<open>The number of \<open>disease_history\<close> rows of a patient, over all time.\<close>

definition disease_rows :: "db \<Rightarrow> nat \<Rightarrow> nat" where
  "disease_rows s patient_id =
     length (filter (\<lambda>d. dh_patient_id d = Some patient_id) (disease_history s))"

section \<open>The cache\<close>

text \<open>
  A value handed to the cache. Numbers are the integers (fractions and exponents are left
  out); an object is the list of its members in order.
\<close>

datatype json =
    JNull
  | JBool bool
  | JNumber int
  | JString string
  | JArray "json list"
  | JObject "(string \<times> json) list"

text \<open>
  The global \<open>JSON\<close> object of the runtime, a parameter of the cache functions:
  \<open>JSON.stringify\<close>, and \<open>JSON.parse\<close> with \<open>None\<close> for a \<open>SyntaxError\<close>.
\<close>

record JSON =
  JSON_stringify :: "json \<Rightarrow> string"
  JSON_parse :: "string \<Rightarrow> json option"

text \<open>
  The store behind \<open>redisClient\<close>: for each key a string and, when it was set with
  \<open>EX\<close>, the second at which it expires. \<open>GET\<close> answers \<open>null\<close> for a key that is
  missing or expired; \<open>SET\<close> replaces the string and the expiry.
\<close>

type_synonym redis = "string \<rightharpoonup> (string \<times> nat option)"

definition redis_get :: "redis \<Rightarrow> nat \<Rightarrow> string \<Rightarrow> string option" where
  "redis_get store now k =
     (case store k of
        None \<Rightarrow> None
      | Some (v, None) \<Rightarrow> Some v
      | Some (v, Some expires) \<Rightarrow> if now < expires then Some v else None)"

definition redis_set :: "redis \<Rightarrow> nat \<Rightarrow> string \<Rightarrow> string \<Rightarrow> nat option \<Rightarrow> redis" where
  "redis_set store now k v ex = store(k \<mapsto> (v, map_option (\<lambda>seconds. now + seconds) ex))"

definition PREFIX :: string where
  "PREFIX = ''cache:''"

text \<open>\<open>getCache\<close> at the second \<open>now\<close>: a value that does not parse is returned as it is.\<close>

definition getCache :: "JSON \<Rightarrow> redis \<Rightarrow> nat \<Rightarrow> string \<Rightarrow> json" where
  "getCache J store now key =
     (case redis_get store now (PREFIX @ key) of
        None \<Rightarrow> JNull
      | Some v \<Rightarrow> (case JSON_parse J v of Some parsed \<Rightarrow> parsed | None \<Rightarrow> JString v))"

text \<open>
  \<open>setCache\<close> at the second \<open>now\<close>. \<open>ttlSeconds\<close> is \<open>None\<close> when the argument is left
  out (the default 600 applies); a value that is zero or negative sets the key without
  expiry. A string is stored as it is, any other value as its JSON text.
\<close>

definition setCache :: "JSON \<Rightarrow> redis \<Rightarrow> nat \<Rightarrow> string \<Rightarrow> json \<Rightarrow> int option \<Rightarrow> redis" where
  "setCache J store now key v ttl =
     (let ttlSeconds = (case ttl of None \<Rightarrow> 600 | Some t \<Rightarrow> t);
          stringValue = (case v of JString s \<Rightarrow> s | _ \<Rightarrow> JSON_stringify J v)
      in if ttlSeconds > 0
         then redis_set store now (PREFIX @ key) stringValue (Some (nat ttlSeconds))
         else redis_set store now (PREFIX @ key) stringValue None)"

text \<open>
  One \<open>JSON\<close> object, on the values above. \<open>stringify\<close> writes a value with no white
  space; in a string it escapes the quote, the backslash and the control characters, the
  way \<open>JSON.stringify\<close> does.
\<close>

definition dquote :: char where
  "dquote = CHR 0x22"

definition backslash :: char where
  "backslash = CHR 0x5C"

definition hex_digit :: "nat \<Rightarrow> char" where
  "hex_digit n = ''0123456789abcdef'' ! n"

definition escape_char :: "char \<Rightarrow> string" where
  "escape_char c =
     (if c = dquote then [backslash, dquote]
      else if c = backslash then [backslash, backslash]
      else if c = CHR 0x08 then [backslash, CHR ''b'']
      else if c = CHR 0x0C then [backslash, CHR ''f'']
      else if c = CHR 0x0A then [backslash, CHR ''n'']
      else if c = CHR 0x0D then [backslash, CHR ''r'']
      else if c = CHR 0x09 then [backslash, CHR ''t'']
      else if (of_char c :: nat) < 32
      then [backslash, CHR ''u'', CHR ''0'', CHR ''0'',
            hex_digit (of_char c div 16), hex_digit (of_char c mod 16)]
      else [c])"

definition quote :: "string \<Rightarrow> string" where
  "quote s = dquote # concat (map escape_char s) @ [dquote]"

fun stringify :: "json \<Rightarrow> string" where
  "stringify JNull = ''null''"
| "stringify (JBool b) = (if b then ''true'' else ''false'')"
| "stringify (JNumber i) = show_int i"
| "stringify (JString s) = quote s"
| "stringify (JArray vs) = ''['' @ join_with '','' (map stringify vs) @ '']''"
| "stringify (JObject ms) =
     ''{'' @ join_with '','' (map (\<lambda>(k, v). quote k @ '':'' @ stringify v) ms) @ ''}''"

text \<open>
  \<open>parse\<close> reads JSON text: white space between tokens, the three literals, strings with
  their escapes (\<open>\u\<close> escapes are written out as UTF-8 bytes), integers with no leading
  zero, arrays and objects. The reader of values takes the number of nested calls it may
  make, and \<open>parse\<close> gives it more than the length of the text. Text with anything left
  after the value is refused, and so is a number with a fraction or an exponent, which is
  outside the values above.
\<close>

definition is_ws :: "char \<Rightarrow> bool" where
  "is_ws c = (c = CHR '' '' \<or> c = CHR 0x09 \<or> c = CHR 0x0A \<or> c = CHR 0x0D)"

definition skip_ws :: "string \<Rightarrow> string" where
  "skip_ws s = dropWhile is_ws s"

definition is_digit :: "char \<Rightarrow> bool" where
  "is_digit c = (48 \<le> (of_char c :: nat) \<and> (of_char c :: nat) \<le> 57)"

definition digit_val :: "char \<Rightarrow> nat" where
  "digit_val c = of_char c - 48"

definition hex_val :: "char \<Rightarrow> nat option" where
  "hex_val c =
     (let n = (of_char c :: nat)
      in if 48 \<le> n \<and> n \<le> 57 then Some (n - 48)
         else if 97 \<le> n \<and> n \<le> 102 then Some (n - 87)
         else if 65 \<le> n \<and> n \<le> 70 then Some (n - 55)
         else None)"

definition hex4 :: "char \<Rightarrow> char \<Rightarrow> char \<Rightarrow> char \<Rightarrow> nat option" where
  "hex4 a b c d =
     (case (hex_val a, hex_val b, hex_val c, hex_val d) of
        (Some w, Some x, Some y, Some z) \<Rightarrow> Some (((w * 16 + x) * 16 + y) * 16 + z)
      | _ \<Rightarrow> None)"

definition utf8 :: "nat \<Rightarrow> string" where
  "utf8 code =
     (if code < 128 then [char_of code]
      else if code < 2048 then [char_of (192 + code div 64), char_of (128 + code mod 64)]
      else [char_of (224 + code div 4096), char_of (128 + (code div 64) mod 64),
            char_of (128 + code mod 64)])"

definition unescape :: "char \<Rightarrow> char option" where
  "unescape e =
     (if e = dquote then Some dquote
      else if e = backslash then Some backslash
      else if e = CHR ''/'' then Some (CHR ''/'')
      else if e = CHR ''b'' then Some (CHR 0x08)
      else if e = CHR ''f'' then Some (CHR 0x0C)
      else if e = CHR ''n'' then Some (CHR 0x0A)
      else if e = CHR ''r'' then Some (CHR 0x0D)
      else if e = CHR ''t'' then Some (CHR 0x09)
      else None)"

fun parse_chars :: "string \<Rightarrow> (string \<times> string) option" where
  "parse_chars [] = None"
| "parse_chars (c # cs) =
     (if c = dquote then Some ([], cs)
      else if c = backslash then
        (case cs of
           [] \<Rightarrow> None
         | e # cs1 \<Rightarrow>
             if e = CHR ''u'' then
               (case cs1 of
                  h1 # h2 # h3 # h4 # cs2 \<Rightarrow>
                    (case hex4 h1 h2 h3 h4 of
                       None \<Rightarrow> None
                     | Some code \<Rightarrow> map_option (\<lambda>(s, r). (utf8 code @ s, r)) (parse_chars cs2))
                | _ \<Rightarrow> None)
             else (case unescape e of
                     None \<Rightarrow> None
                   | Some d \<Rightarrow> map_option (\<lambda>(s, r). (d # s, r)) (parse_chars cs1)))
      else if (of_char c :: nat) < 32 then None
      else map_option (\<lambda>(s, r). (c # s, r)) (parse_chars cs))"

definition parse_nat :: "string \<Rightarrow> (nat \<times> string) option" where
  "parse_nat s =
     (let ds = takeWhile is_digit s; r = dropWhile is_digit s
      in if ds = [] then None
         else if 1 < length ds \<and> hd ds = CHR ''0'' then None
         else if r \<noteq> [] \<and> (hd r = CHR ''.'' \<or> hd r = CHR ''e'' \<or> hd r = CHR ''E'') then None
         else Some (foldl (\<lambda>a c. 10 * a + digit_val c) 0 ds, r))"

definition parse_number :: "string \<Rightarrow> (json \<times> string) option" where
  "parse_number s =
     (case s of
        [] \<Rightarrow> None
      | c # cs \<Rightarrow>
          if c = CHR ''-''
          then map_option (\<lambda>(n, r). (JNumber (- int n), r)) (parse_nat cs)
          else map_option (\<lambda>(n, r). (JNumber (int n), r)) (parse_nat s))"

definition parse_literal :: "string \<Rightarrow> json \<Rightarrow> string \<Rightarrow> (json \<times> string) option" where
  "parse_literal word v s =
     (if take (length word) s = word then Some (v, drop (length word) s) else None)"

fun parse_value :: "nat \<Rightarrow> string \<Rightarrow> (json \<times> string) option"
  and parse_elements :: "nat \<Rightarrow> string \<Rightarrow> (json list \<times> string) option"
  and parse_members :: "nat \<Rightarrow> string \<Rightarrow> ((string \<times> json) list \<times> string) option"
where
  "parse_value 0 s = None"
| "parse_value (Suc n) s =
     (case skip_ws s of
        [] \<Rightarrow> None
      | c # cs \<Rightarrow>
          if c = CHR ''n'' then parse_literal ''null'' JNull (c # cs)
          else if c = CHR ''t'' then parse_literal ''true'' (JBool True) (c # cs)
          else if c = CHR ''f'' then parse_literal ''false'' (JBool False) (c # cs)
          else if c = dquote then map_option (\<lambda>(str, r). (JString str, r)) (parse_chars cs)
          else if c = CHR ''[''
          then (case skip_ws cs of
                  [] \<Rightarrow> None
                | d # r \<Rightarrow> if d = CHR '']'' then Some (JArray [], r)
                           else map_option (\<lambda>(vs, r1). (JArray vs, r1)) (parse_elements n cs))
          else if c = CHR ''{''
          then (case skip_ws cs of
                  [] \<Rightarrow> None
                | d # r \<Rightarrow> if d = CHR ''}'' then Some (JObject [], r)
                           else map_option (\<lambda>(ms, r1). (JObject ms, r1)) (parse_members n cs))
          else parse_number (c # cs))"
| "parse_elements 0 s = None"
| "parse_elements (Suc n) s =
     (case parse_value n s of
        None \<Rightarrow> None
      | Some (v, r) \<Rightarrow>
          (case skip_ws r of
             [] \<Rightarrow> None
           | c # r1 \<Rightarrow>
               if c = CHR '','' then map_option (\<lambda>(vs, r2). (v # vs, r2)) (parse_elements n r1)
               else if c = CHR '']'' then Some ([v], r1)
               else None))"
| "parse_members 0 s = None"
| "parse_members (Suc n) s =
     (case skip_ws s of
        [] \<Rightarrow> None
      | q # s1 \<Rightarrow>
          if q \<noteq> dquote then None
          else (case parse_chars s1 of
                  None \<Rightarrow> None
                | Some (k, s2) \<Rightarrow>
                    (case skip_ws s2 of
                       [] \<Rightarrow> None
                     | c # s3 \<Rightarrow>
                         if c \<noteq> CHR '':'' then None
                         else (case parse_value n s3 of
                                 None \<Rightarrow> None
                               | Some (v, r) \<Rightarrow>
                                   (case skip_ws r of
                                      [] \<Rightarrow> None
                                    | d # r1 \<Rightarrow>
                                        if d = CHR '',''
                                        then map_option (\<lambda>(ms, r2). ((k, v) # ms, r2))
                                               (parse_members n r1)
                                        else if d = CHR ''}'' then Some ([(k, v)], r1)
                                        else None)))))"

definition parse :: "string \<Rightarrow> json option" where
  "parse s =
     (case parse_value (Suc (length s)) s of
        None \<Rightarrow> None
      | Some (v, r) \<Rightarrow> if skip_ws r = [] then Some v else None)"

definition json_codec :: JSON where
  "json_codec = \<lparr>JSON_stringify = stringify, JSON_parse = parse\<rparr>"

text \<open>
  A dashboard summary as a caller would cache it, with a quote and a line feed inside a
  string.
\<close>

definition patient_summary :: json where
  "patient_summary =
     JObject [(''patient_id'', JNumber 7),
              (''balance'', JNumber (- 120)),
              (''doctors'', JArray [JString ''Dr. Rao'', JString (''Dr. '' @ [CHR 0x22] @ ''K'' @ [CHR 0x22, CHR 0x0A])]),
              (''upcoming'', JArray []),
              (''active'', JBool True),
              (''last_visit'', JNull)]"

text \<open>
  Whether a key set at \<open>now\<close> with this \<open>ttlSeconds\<close> is still live at \<open>later\<close>, and
  whether a value is a bare string.
\<close>

definition before_expiry :: "nat \<Rightarrow> int option \<Rightarrow> nat \<Rightarrow> bool" where
  "before_expiry now ttl later =
     (let ttlSeconds = (case ttl of None \<Rightarrow> 600 | Some t \<Rightarrow> t)
      in ttlSeconds \<le> 0 \<or> later < now + nat ttlSeconds)"

definition is_string :: "json \<Rightarrow> bool" where
  "is_string v = (case v of JString s \<Rightarrow> True | _ \<Rightarrow> False)"

text \<open>
  What may follow a number, and what may follow a value inside an array or an object; the
  size of a value, which bounds the nested calls its text needs; and a text whose first
  character is neither white space nor a closing bracket.
\<close>

definition number_end :: "string \<Rightarrow> bool" where
  "number_end r =
     (r = [] \<or> \<not> is_digit (hd r) \<and> hd r \<noteq> CHR ''.'' \<and> hd r \<noteq> CHR ''e'' \<and> hd r \<noteq> CHR ''E'')"

fun weight :: "json \<Rightarrow> nat" where
  "weight JNull = 1"
| "weight (JBool b) = 1"
| "weight (JNumber i) = 1"
| "weight (JString s) = 1"
| "weight (JArray vs) = Suc (sum_list (map (\<lambda>v. Suc (weight v)) vs))"
| "weight (JObject ms) = Suc (sum_list (map (\<lambda>(k, v). Suc (weight v)) ms))"

definition delim :: "string \<Rightarrow> bool" where
  "delim r = (r = [] \<or> hd r = CHR '','' \<or> hd r = CHR '']'' \<or> hd r = CHR ''}'')"

definition first_ok :: "string \<Rightarrow> bool" where
  "first_ok s = (s \<noteq> [] \<and> \<not> is_ws (hd s) \<and> hd s \<noteq> CHR '']'' \<and> hd s \<noteq> CHR ''}'')"

section \<open>Chat: authorization\<close>

lemma left_join_nonempty: "left_join P ys \<noteq> []"
  by (simp add: left_join_def)

lemma left_join_elem:
  "z \<in> set (left_join P ys) \<Longrightarrow> z = None \<or> (\<exists>y \<in> set ys. z = Some y \<and> P y)"
  by (auto simp: left_join_def split: if_splits)

lemma select_appointment_rows:
  assumes "r \<in> set (select_appointment s appointmentId)"
  shows "\<exists>a \<in> set (appointments s). a_appointment_id a = appointmentId \<and>
           (aj_patient_id r = None \<or> aj_patient_id r = a_patient_id a) \<and>
           (aj_doctor_id r = None \<or> aj_doctor_id r = a_doctor_id a)"
proof -
  from assms obtain a p d where a: "a \<in> set (appointments s)" "a_appointment_id a = appointmentId"
    and p: "p \<in> set (left_join (\<lambda>p. a_patient_id a = Some (p_patient_id p)) (patients s))"
    and d: "d \<in> set (left_join (\<lambda>d. a_doctor_id a = Some (d_doctor_id d)) (doctors s))"
    and r: "r = \<lparr>aj_appointment_id = a_appointment_id a,
                    aj_patient_id = map_option p_patient_id p,
                    aj_doctor_id = map_option d_doctor_id d\<rparr>"
    by (auto simp: select_appointment_def)
  from left_join_elem [OF p] have "aj_patient_id r = None \<or> aj_patient_id r = a_patient_id a"
    by (auto simp: r)
  moreover from left_join_elem [OF d] have "aj_doctor_id r = None \<or> aj_doctor_id r = a_doctor_id a"
    by (auto simp: r)
  ultimately show ?thesis using a by blast
qed

lemma select_appointment_nonempty:
  assumes "a \<in> set (appointments s)" "a_appointment_id a = appointmentId"
  shows "select_appointment s appointmentId \<noteq> []"
proof -
  from assms have "filter (\<lambda>a. a_appointment_id a = appointmentId) (appointments s) \<noteq> []"
    by (auto simp: filter_empty_conv)
  then obtain b bs where "filter (\<lambda>a. a_appointment_id a = appointmentId) (appointments s) = b # bs"
    by (cases "filter (\<lambda>a. a_appointment_id a = appointmentId) (appointments s)") auto
  then show ?thesis
    by (simp add: select_appointment_def left_join_nonempty)
qed

text \<open>
  C9. When the appointment exists and its lookup is answered, a sender who is not the
  appointment's own patient (role patient) or own doctor (role doctor) gets the
  \<open>Unauthorized\<close> error as the result of the call, and the store is returned as it was:
  no message row is inserted.
\<close>

theorem sendMessage_unauthorized:
  assumes q: "fs 0 = None"
    and ex: "a \<in> set (appointments s)" "a_appointment_id a = appointmentId"
    and un: "\<forall>b \<in> set (appointments s). a_appointment_id b = appointmentId \<longrightarrow>
               \<not> own_sender b senderId senderRole"
  shows "sendMessage fs now s appointmentId senderId senderRole messageText =
           (Inl (Error ''Unauthorized: sender not part of this appointment''), s)"
proof -
  from select_appointment_nonempty [OF ex] obtain r rs
    where rows: "select_appointment s appointmentId = r # rs"
    by (cases "select_appointment s appointmentId") auto
  then have "r \<in> set (select_appointment s appointmentId)" by simp
  from select_appointment_rows [OF this] obtain b where b: "b \<in> set (appointments s)"
    "a_appointment_id b = appointmentId"
    "aj_patient_id r = None \<or> aj_patient_id r = a_patient_id b"
    "aj_doctor_id r = None \<or> aj_doctor_id r = a_doctor_id b" by blast
  with un have "\<not> own_sender b senderId senderRole" by blast
  with b have "\<not> isValidSender r senderId senderRole"
    by (auto simp: isValidSender_def own_sender_def)
  then show ?thesis
    by (simp add: sendMessage_def pool_query_def q rows)
qed

theorem sendMessage_unauthorized_witness:
  "sendMessage no_faults noon chat_db 1 999 ''patient'' ''Hello'' =
     (Inl (Error ''Unauthorized: sender not part of this appointment''), chat_db) \<and>
   messages (snd (sendMessage no_faults noon chat_db 1 999 ''patient'' ''Hello'')) = []"
proof -
  have "sendMessage no_faults noon chat_db 1 999 ''patient'' ''Hello'' =
     (Inl (Error ''Unauthorized: sender not part of this appointment''), chat_db)"
    using sendMessage_unauthorized
      [of no_faults "\<lparr>a_appointment_id = 1, a_patient_id = Some 1, a_doctor_id = Some 2\<rparr>"
          chat_db 1 999 "''patient''" noon "''Hello''"]
    by (simp add: no_faults_def chat_db_def own_sender_def)
  then show ?thesis by (simp add: chat_db_def)
qed

section \<open>Evaluation on the example stores\<close>

lemma risk_db_tables:
  "patients risk_db =
     [\<lparr>p_patient_id = 101, p_age = Some 65\<rparr>, \<lparr>p_patient_id = 102, p_age = Some (- 16)\<rparr>]"
  "appointments risk_db =
     [\<lparr>a_appointment_id = 11, a_patient_id = Some 101, a_doctor_id = Some 7\<rparr>,
      \<lparr>a_appointment_id = 12, a_patient_id = Some 102, a_doctor_id = Some 7\<rparr>]"
  "medicine_side_effects risk_db = []"
  "health_risk_score risk_db = []"
  "disease_history risk_db =
     [\<lparr>dh_patient_id = Some 101, dh_disease_name = ''Diabetes'', dh_diagnosed_date = Date 2024 12 1\<rparr>,
      \<lparr>dh_patient_id = Some 101, dh_disease_name = ''Diabetes'', dh_diagnosed_date = Date 2025 1 10\<rparr>,
      \<lparr>dh_patient_id = Some 101, dh_disease_name = ''Diabetes'', dh_diagnosed_date = Date 2025 2 20\<rparr>]"
  "health_risk_score_risk_id_seq risk_db = 0"
  by (simp_all add: risk_db_def)

lemma risk_db_prescription_table:
  "prescriptions risk_db =
     [\<lparr>pr_prescription_id = 21, pr_appointment_id = Some 11, pr_medicine_name = ''Aspirin'',
       pr_dosage = ''500mg'', pr_created_at = Some (Timestamp (Date 2025 3 1) 0),
       pr_side_effects = Some ''Rash'', pr_reported_allergy = Some True\<rparr>,
      \<lparr>pr_prescription_id = 22, pr_appointment_id = Some 11, pr_medicine_name = ''Metformin'',
       pr_dosage = ''1g'', pr_created_at = Some (Timestamp (Date 2025 3 2) 0),
       pr_side_effects = None, pr_reported_allergy = Some False\<rparr>,
      \<lparr>pr_prescription_id = 23, pr_appointment_id = Some 12, pr_medicine_name = ''Aspirin'',
       pr_dosage = ''500mg'', pr_created_at = Some (Timestamp (Date 2025 3 3) 0),
       pr_side_effects = None, pr_reported_allergy = Some True\<rparr>]"
  by (simp add: risk_db_def)

lemma cutoffs:
  "minus_months 2 (Date 2025 3 14) = Date 2025 1 14"
  "minus_months 6 (Date 2025 3 14) = Date 2024 9 14"
  by (simp_all add: minus_months_def days_in_month_def is_leap_def Let_def)

lemma risk_db_prescriptions:
  "patient_prescriptions risk_db 101 = take 2 (prescriptions risk_db)"
  "patient_prescriptions risk_db 102 = drop 2 (prescriptions risk_db)"
  "patient_prescriptions risk_db 999 = []"
  by (simp_all add: patient_prescriptions_def risk_db_tables risk_db_prescription_table)

lemma risk_db_recent:
  "recent_diseases risk_db (Date 2025 3 14) 101 = disease_history risk_db"
  "recent_diseases risk_db (Date 2025 3 14) 102 = []"
  by (simp_all add: recent_diseases_def cutoffs risk_db_tables date_le_def)

lemma risk_db_reads:
  "select_age risk_db 101 = [Some 65]"
  "select_age risk_db 102 = [Some (- 16)]"
  "select_medicine_freq risk_db (Date 2025 3 14) 101 =
     [\<lparr>mf_total_prescriptions = 2, mf_unique_medicines = 2\<rparr>]"
  "select_medicine_freq risk_db (Date 2025 3 14) 102 =
     [\<lparr>mf_total_prescriptions = 1, mf_unique_medicines = 1\<rparr>]"
  "select_disease_freq risk_db (Date 2025 3 14) 101 =
     [\<lparr>df_total_diseases = 3, df_unique_diseases = 1, df_max_single_disease = 3\<rparr>]"
  "select_disease_freq risk_db (Date 2025 3 14) 102 =
     [\<lparr>df_total_diseases = 0, df_unique_diseases = 0, df_max_single_disease = 0\<rparr>]"
  "select_allergy_count risk_db 101 = [1]"
  "select_allergy_count risk_db 102 = [1]"
  by (simp_all add: select_age_def select_medicine_freq_def select_disease_freq_def
        select_allergy_count_def risk_db_prescriptions risk_db_recent risk_db_tables
        risk_db_prescription_table cutoffs date_le_def Let_def)

lemma score_result_sel:
  "rr_score (score_result pd mf df ac) =
     min 100 (ageFactor (or_default (case pd of [] \<Rightarrow> None | a # rest \<Rightarrow> a) 30) +
              medicineFactor (case mf of [] \<Rightarrow> 0 | r # rest \<Rightarrow> mf_total_prescriptions r) +
              diseaseFactor (case df of [] \<Rightarrow> 0 | r # rest \<Rightarrow> df_total_diseases r) +
              chronicBonus (case df of [] \<Rightarrow> 0 | r # rest \<Rightarrow> df_max_single_disease r) +
              allergyFactor (case ac of [] \<Rightarrow> 0 | n # rest \<Rightarrow> n))"
  "rr_level (score_result pd mf df ac) = riskLevel (rr_score (score_result pd mf df ac))"
  "rr_description (score_result pd mf df ac) =
     riskDescription (rr_score (score_result pd mf df ac))"
  "rr_breakdown (score_result pd mf df ac) =
     Some \<lparr>bd_age_factor = ageFactor (or_default (case pd of [] \<Rightarrow> None | a # rest \<Rightarrow> a) 30),
           bd_medicine_factor =
             medicineFactor (case mf of [] \<Rightarrow> 0 | r # rest \<Rightarrow> mf_total_prescriptions r),
           bd_disease_factor =
             diseaseFactor (case df of [] \<Rightarrow> 0 | r # rest \<Rightarrow> df_total_diseases r),
           bd_allergy_factor = allergyFactor (case ac of [] \<Rightarrow> 0 | n # rest \<Rightarrow> n),
           bd_chronic_bonus =
             chronicBonus (case df of [] \<Rightarrow> 0 | r # rest \<Rightarrow> df_max_single_disease r)\<rparr>"
  by (simp_all add: score_result_def Let_def)

lemma risk_db_computed:
  "rr_score (computed_result risk_db (Date 2025 3 14) 101) = 42"
  "rr_level (computed_result risk_db (Date 2025 3 14) 101) = ''moderate''"
  "rr_breakdown (computed_result risk_db (Date 2025 3 14) 101) =
     Some \<lparr>bd_age_factor = 12, bd_medicine_factor = 6, bd_disease_factor = 9,
           bd_allergy_factor = 5, bd_chronic_bonus = 10\<rparr>"
  "rr_score (computed_result risk_db (Date 2025 3 14) 102) = 5"
  "rr_level (computed_result risk_db (Date 2025 3 14) 102) = ''low''"
  "rr_breakdown (computed_result risk_db (Date 2025 3 14) 102) =
     Some \<lparr>bd_age_factor = - 3, bd_medicine_factor = 3, bd_disease_factor = 0,
           bd_allergy_factor = 5, bd_chronic_bonus = 0\<rparr>"
  by (simp_all add: computed_result_def risk_db_reads score_result_sel or_default_def
        ageFactor_def medicineFactor_def diseaseFactor_def allergyFactor_def chronicBonus_def
        riskLevel_def)

section \<open>The risk score: the paths of a call\<close>

lemma less_5_cases: "i < (5::nat) \<Longrightarrow> i = 0 \<or> i = 1 \<or> i = 2 \<or> i = 3 \<or> i = 4"
  by arith

lemma calc_fault:
  assumes "i < 5" "(fs :: faults) i \<noteq> None"
  shows "calculateHealthRiskScore fs now s pid = (risk_unknown, s)"
proof -
  from less_5_cases [OF assms(1)] assms(2)
  have "fs 0 \<noteq> None \<or> fs 1 \<noteq> None \<or> fs 2 \<noteq> None \<or> fs 3 \<noteq> None \<or> fs 4 \<noteq> None"
    by auto
  then show ?thesis
    by (auto simp: calculateHealthRiskScore_def calculateHealthRiskScore_try_def pool_query_def
          Let_def split: option.splits)
qed

lemma conflict_target_refused: "\<not> list_all accepted_index_elem conflict_target"
  by (simp add: conflict_target_def)

lemma upsert_refused:
  "\<exists>msg. upsert_health_risk_score now s pid sc lv fc = (Inl (DatabaseError msg), s)"
  by (simp add: upsert_health_risk_score_def conflict_target_refused)

lemma calc_refused: "calculateHealthRiskScore fs now s pid = (risk_unknown, s)"
proof -
  from upsert_refused obtain msg where
    "upsert_health_risk_score now s pid
       (rr_score (computed_result s (ts_date now) pid))
       (rr_level (computed_result s (ts_date now) pid))
       (rr_factors (computed_result s (ts_date now) pid)) = (Inl (DatabaseError msg), s)"
    by blast
  then show ?thesis
    by (simp add: calculateHealthRiskScore_def calculateHealthRiskScore_try_def pool_query_def
          computed_result_def Let_def split: option.splits)
qed

section \<open>The two scorers: levels\<close>





lemma enhanced_factors_points:
  "0 \<le> sum_list (map ef_points (enhanced_factors a r h d t)) \<and>
   sum_list (map ef_points (enhanced_factors a r h d t)) \<le> 90"
  by (simp add: enhanced_factors_def)

lemma enhanced_cases:
  "calculateEnhancedHealthRiskScore fs now s pid = e \<Longrightarrow>
     (er_score e = 0 \<and> er_level e = ''unknown'' \<and> er_factors e = []) \<or>
     (er_level e = enhancedLevel (er_score e) \<and>
      er_score e = min (sum_list (map ef_points (er_factors e))) 100 \<and>
      0 \<le> sum_list (map ef_points (er_factors e)) \<and>
      sum_list (map ef_points (er_factors e)) \<le> 90)"
  using enhanced_factors_points
  by (auto simp: calculateEnhancedHealthRiskScore_def calculateEnhancedHealthRiskScore_try_def
        pool_query_def enhanced_unknown_def Let_def
      split: option.splits sum.splits list.splits)

lemma risk_db_enhanced:
  "er_score (calculateEnhancedHealthRiskScore no_faults noon risk_db 101) = 30"
  "er_level (calculateEnhancedHealthRiskScore no_faults noon risk_db 101) = ''moderate''"
  by (simp_all add: calculateEnhancedHealthRiskScore_def calculateEnhancedHealthRiskScore_try_def
        pool_query_def no_faults_def risk_db_reads select_repeated_diseases_def
        select_doctor_count_def non_null_def risk_db_tables risk_db_prescription_table
        detectMedicineRepetition_def select_medicine_repetition_def select_repetition_join_def
        repetition_rows_def left_join_def order_by_desc_def getMedicineUsageStats_def select_usage_stats_def
        medicine_repetition_of_def usage_stats_default_def
        enhanced_factors_def enhancedLevel_def or_default_def Let_def)



section \<open>The two scorers: bounds\<close>

lemma ageFactor_le: "ageFactor a \<le> 15"
  by (simp add: ageFactor_def)

lemma ageFactor_nonneg: "0 \<le> a \<Longrightarrow> 0 \<le> ageFactor a"
  by (simp add: ageFactor_def pos_imp_zdiv_nonneg_iff)

lemma medicineFactor_bounds: "0 \<le> medicineFactor n" "medicineFactor n \<le> 30"
  by (simp_all add: medicineFactor_def)

lemma diseaseFactor_bounds: "0 \<le> diseaseFactor n" "diseaseFactor n \<le> 25"
  by (simp_all add: diseaseFactor_def pos_imp_zdiv_nonneg_iff)

lemma allergyFactor_bounds: "0 \<le> allergyFactor n" "allergyFactor n \<le> 20"
  by (simp_all add: allergyFactor_def)

lemma or_default_nonneg: "(case x of None \<Rightarrow> True | Some v \<Rightarrow> 0 \<le> v) \<Longrightarrow> 0 \<le> d \<Longrightarrow> 0 \<le> or_default x d"
  by (simp add: or_default_def split: option.splits)

lemma score_result_breakdown:
  assumes "rr_breakdown (score_result pd mf df ac) = Some b"
  shows "rr_score (score_result pd mf df ac) =
           min 100 (bd_age_factor b + bd_medicine_factor b + bd_disease_factor b +
                    bd_chronic_bonus b + bd_allergy_factor b) \<and>
         bd_age_factor b \<le> 15 \<and>
         0 \<le> bd_medicine_factor b \<and> bd_medicine_factor b \<le> 30 \<and>
         0 \<le> bd_disease_factor b \<and> bd_disease_factor b \<le> 25 \<and>
         0 \<le> bd_allergy_factor b \<and> bd_allergy_factor b \<le> 20 \<and>
         (bd_chronic_bonus b = 0 \<or> bd_chronic_bonus b = 10) \<and>
         (list_all (\<lambda>a. case a of None \<Rightarrow> True | Some v \<Rightarrow> 0 \<le> v) pd \<longrightarrow> 0 \<le> bd_age_factor b)"
proof -
  let ?age = "or_default (case pd of [] \<Rightarrow> None | a # rest \<Rightarrow> a) 30"
  have "list_all (\<lambda>a. case a of None \<Rightarrow> True | Some v \<Rightarrow> 0 \<le> v) pd \<Longrightarrow> 0 \<le> ?age"
    by (rule or_default_nonneg) (auto split: list.splits)
  then show ?thesis
    using assms
    by (auto simp: score_result_sel ageFactor_le ageFactor_nonneg medicineFactor_bounds
          diseaseFactor_bounds allergyFactor_bounds chronicBonus_def)
qed

lemma score_result_has_breakdown: "\<exists>b. rr_breakdown (score_result pd mf df ac) = Some b"
  by (simp add: score_result_sel)

lemma enhanced_factors_each:
  "list_all (\<lambda>f. 0 < ef_points f \<and> ef_points f \<le> 20) (enhanced_factors a r h d t)"
  by (simp add: enhanced_factors_def)

lemma enhanced_each:
  "list_all (\<lambda>f. 0 < ef_points f \<and> ef_points f \<le> 20)
     (er_factors (calculateEnhancedHealthRiskScore fs now s pid))"
  using enhanced_factors_each
  by (auto simp: calculateEnhancedHealthRiskScore_def calculateEnhancedHealthRiskScore_try_def
        pool_query_def enhanced_unknown_def Let_def
      split: option.splits sum.splits list.splits)

text \<open>
  C6, as amended. For every store and every fault schedule the score either scorer returns
  lies in [0, 100]. The enhanced score is the sum of the points of its factors, capped at
  100, and each factor carries between 1 and 20 points. The score
  \<open>calculateHealthRiskScore\<close> computes from its four reads is the sum of the five
  sub-scores capped at 100; the age sub-score is at most 15, the medicine, disease and
  allergy sub-scores lie in [0, 30], [0, 25] and [0, 20], the chronic bonus is 0 or 10;
  and the age sub-score and the computed score are not negative when no age on file for
  the patient is.
\<close>

theorem score_within_bounds:
  "(0 \<le> rr_score (fst (calculateHealthRiskScore fs now s pid)) \<and>
    rr_score (fst (calculateHealthRiskScore fs now s pid)) \<le> 100 \<and>
    0 \<le> er_score (calculateEnhancedHealthRiskScore fs now s pid) \<and>
    er_score (calculateEnhancedHealthRiskScore fs now s pid) \<le> 100 \<and>
    er_score (calculateEnhancedHealthRiskScore fs now s pid) =
      min (sum_list (map ef_points (er_factors (calculateEnhancedHealthRiskScore fs now s pid)))) 100 \<and>
    list_all (\<lambda>f. 0 < ef_points f \<and> ef_points f \<le> 20)
      (er_factors (calculateEnhancedHealthRiskScore fs now s pid))) \<and>
   (\<exists>b. rr_breakdown (computed_result s d pid) = Some b \<and>
      rr_score (computed_result s d pid) =
        min 100 (bd_age_factor b + bd_medicine_factor b + bd_disease_factor b +
                 bd_chronic_bonus b + bd_allergy_factor b) \<and>
      rr_score (computed_result s d pid) \<le> 100 \<and>
      bd_age_factor b \<le> 15 \<and>
      0 \<le> bd_medicine_factor b \<and> bd_medicine_factor b \<le> 30 \<and>
      0 \<le> bd_disease_factor b \<and> bd_disease_factor b \<le> 25 \<and>
      0 \<le> bd_allergy_factor b \<and> bd_allergy_factor b \<le> 20 \<and>
      (bd_chronic_bonus b = 0 \<or> bd_chronic_bonus b = 10) \<and>
      (stored_age_nonneg s pid \<longrightarrow>
         0 \<le> bd_age_factor b \<and> 0 \<le> rr_score (computed_result s d pid)))"
proof -
  have 1: "0 \<le> rr_score (fst (calculateHealthRiskScore fs now s pid)) \<and>
    rr_score (fst (calculateHealthRiskScore fs now s pid)) \<le> 100"
    by (simp add: calc_refused risk_unknown_def)
  from enhanced_cases [OF refl, of fs now s pid]
  have 2: "0 \<le> er_score (calculateEnhancedHealthRiskScore fs now s pid) \<and>
   er_score (calculateEnhancedHealthRiskScore fs now s pid) \<le> 100 \<and>
   er_score (calculateEnhancedHealthRiskScore fs now s pid) =
     min (sum_list (map ef_points (er_factors (calculateEnhancedHealthRiskScore fs now s pid)))) 100"
    by auto
  let ?c = "computed_result s d pid"
  from score_result_has_breakdown obtain b where b: "rr_breakdown ?c = Some b"
    unfolding computed_result_def by blast
  note sb = score_result_breakdown [OF b [unfolded computed_result_def],
      folded computed_result_def stored_age_nonneg_def]
  have 3: "rr_score ?c \<le> 100"
    by (simp add: computed_result_def score_result_sel)
  have 4: "0 \<le> rr_score ?c" if "stored_age_nonneg s pid"
  proof -
    from sb that have "0 \<le> bd_age_factor b + bd_medicine_factor b + bd_disease_factor b +
                 bd_chronic_bonus b + bd_allergy_factor b"
      by auto
    with sb show ?thesis by simp
  qed
  from sb 3 4 b
  have 5: "\<exists>b. rr_breakdown ?c = Some b \<and>
      rr_score ?c =
        min 100 (bd_age_factor b + bd_medicine_factor b + bd_disease_factor b +
                 bd_chronic_bonus b + bd_allergy_factor b) \<and>
      rr_score ?c \<le> 100 \<and>
      bd_age_factor b \<le> 15 \<and>
      0 \<le> bd_medicine_factor b \<and> bd_medicine_factor b \<le> 30 \<and>
      0 \<le> bd_disease_factor b \<and> bd_disease_factor b \<le> 25 \<and>
      0 \<le> bd_allergy_factor b \<and> bd_allergy_factor b \<le> 20 \<and>
      (bd_chronic_bonus b = 0 \<or> bd_chronic_bonus b = 10) \<and>
      (stored_age_nonneg s pid \<longrightarrow> 0 \<le> bd_age_factor b \<and> 0 \<le> rr_score ?c)"
    by (intro exI [of _ b]) blast
  from 1 2 enhanced_each [of fs now s pid] 5 show ?thesis by blast
qed

theorem score_within_bounds_witness:
  "stored_age_nonneg risk_db 101 \<and>
   rr_breakdown (computed_result risk_db (Date 2025 3 14) 101) =
     Some \<lparr>bd_age_factor = 12, bd_medicine_factor = 6, bd_disease_factor = 9,
           bd_allergy_factor = 5, bd_chronic_bonus = 10\<rparr> \<and>
   rr_score (computed_result risk_db (Date 2025 3 14) 101) = 42 \<and>
   rr_score (fst (calculateHealthRiskScore no_faults noon risk_db 101)) = 0 \<and>
   er_score (calculateEnhancedHealthRiskScore no_faults noon risk_db 101) = 30 \<and>
   0 \<le> er_score (calculateEnhancedHealthRiskScore no_faults noon risk_db 101) \<and>
   er_score (calculateEnhancedHealthRiskScore no_faults noon risk_db 101) \<le> 100"
proof -
  let ?c = "computed_result risk_db (Date 2025 3 14) 101"
  let ?b = "\<lparr>bd_age_factor = 12, bd_medicine_factor = 6, bd_disease_factor = 9,
           bd_allergy_factor = 5, bd_chronic_bonus = 10\<rparr>"
  note t = score_within_bounds [of no_faults noon risk_db 101 "Date 2025 3 14"]
  have a: "stored_age_nonneg risk_db 101"
    by (simp add: stored_age_nonneg_def risk_db_reads)
  have b: "rr_breakdown ?c = Some ?b"
    by (simp add: risk_db_computed)
  from t [THEN conjunct2] obtain b' where
    "rr_breakdown ?c = Some b'"
    "rr_score ?c = min 100 (bd_age_factor b' + bd_medicine_factor b' + bd_disease_factor b' +
                 bd_chronic_bonus b' + bd_allergy_factor b')"
    by blast
  with b have sc: "rr_score ?c = 42" by simp
  have z: "rr_score (fst (calculateHealthRiskScore no_faults noon risk_db 101)) = 0"
    by (simp add: calc_refused risk_unknown_def)
  have e: "er_score (calculateEnhancedHealthRiskScore no_faults noon risk_db 101) = 30"
    by (simp add: risk_db_enhanced)
  from t [THEN conjunct1] a b sc z e show ?thesis by blast
qed

text \<open>
  C6 as stated fails on the sub-scores: patient 102 has the age -16 on file, and the age
  sub-score the call computes for it is -3 (the sum is 5). The call hands it to the write
  in the \<open>age_factor\<close> entry of the factors, and itself returns the \<open>unknown\<close>
  result.
\<close>

theorem negative_age_sub_score:
  "select_age risk_db 102 = [Some (- 16)] \<and>
   (''age_factor'', Entry (- 3) ''Age (-16 years): +-3'') \<in>
     set (rr_factors (computed_result risk_db (Date 2025 3 14) 102)) \<and>
   rr_breakdown (computed_result risk_db (Date 2025 3 14) 102) =
     Some \<lparr>bd_age_factor = - 3, bd_medicine_factor = 3, bd_disease_factor = 0,
           bd_allergy_factor = 5, bd_chronic_bonus = 0\<rparr> \<and>
   rr_score (computed_result risk_db (Date 2025 3 14) 102) = 5 \<and>
   calculateHealthRiskScore no_faults noon risk_db 102 = (risk_unknown, risk_db)"
proof -
  have "show_int (- 16) = ''-16''" "show_int (- 3) = ''-3''"
    by (simp_all add: show_int_def show_nat.simps)
  then have "(''age_factor'', Entry (- 3) ''Age (-16 years): +-3'') \<in>
     set (rr_factors (computed_result risk_db (Date 2025 3 14) 102))"
    by (simp add: computed_result_def risk_db_reads score_result_def Let_def or_default_def
          ageFactor_def)
  then show ?thesis
    by (simp add: risk_db_reads risk_db_computed calc_refused)
qed

section \<open>The two scorers: a missing patient\<close>

lemma enhanced_absent:
  assumes "pid \<notin> p_patient_id ` set (patients s)"
  shows "er_score (calculateEnhancedHealthRiskScore fs now s pid) = 0 \<and>
         er_level (calculateEnhancedHealthRiskScore fs now s pid) = ''unknown'' \<and>
         er_factors (calculateEnhancedHealthRiskScore fs now s pid) = []"
proof -
  from assms have "select_age s pid = []"
    by (auto simp: select_age_def filter_empty_conv)
  then show ?thesis
    by (simp add: calculateEnhancedHealthRiskScore_def calculateEnhancedHealthRiskScore_try_def
          pool_query_def enhanced_unknown_def split: option.splits)
qed

text \<open>
  C3. For a patient id that is not in the \<open>patients\<close> table (of a store whose risk rows
  respect their foreign key), both scorers return score 0, level \<open>unknown\<close> and no
  factors, whatever the fault schedule; \<open>calculateHealthRiskScore\<close> gets there through
  the refused insert, and leaves the risk table as it was.
\<close>

theorem missing_patient_unknown:
  assumes "pid \<notin> p_patient_id ` set (patients s)" and "references_patients s"
  shows "rr_score (fst (calculateHealthRiskScore fs now s pid)) = 0 \<and>
         rr_level (fst (calculateHealthRiskScore fs now s pid)) = ''unknown'' \<and>
         rr_factors (fst (calculateHealthRiskScore fs now s pid)) = [] \<and>
         health_risk_score (snd (calculateHealthRiskScore fs now s pid)) = health_risk_score s \<and>
         er_score (calculateEnhancedHealthRiskScore fs now s pid) = 0 \<and>
         er_level (calculateEnhancedHealthRiskScore fs now s pid) = ''unknown'' \<and>
         er_factors (calculateEnhancedHealthRiskScore fs now s pid) = []"
  using calc_refused [of fs now s pid] enhanced_absent [OF assms(1), of fs now]
  by (simp add: risk_unknown_def)

theorem missing_patient_unknown_witness:
  "rr_score (fst (calculateHealthRiskScore no_faults noon risk_db 999)) = 0 \<and>
   rr_level (fst (calculateHealthRiskScore no_faults noon risk_db 999)) = ''unknown'' \<and>
   rr_factors (fst (calculateHealthRiskScore no_faults noon risk_db 999)) = [] \<and>
   er_score (calculateEnhancedHealthRiskScore no_faults noon risk_db 999) = 0 \<and>
   er_level (calculateEnhancedHealthRiskScore no_faults noon risk_db 999) = ''unknown'' \<and>
   er_factors (calculateEnhancedHealthRiskScore no_faults noon risk_db 999) = []"
proof -
  have "999 \<notin> p_patient_id ` set (patients risk_db)" "references_patients risk_db"
    by (simp_all add: risk_db_tables references_patients_def)
  from missing_patient_unknown [OF this, of no_faults noon] show ?thesis by blast
qed

section \<open>Faults\<close>

text \<open>
  C4. A rejected query never leaves a detector or the aggregator as an error (their
  results are plain values): \<open>detectDiseasePatterns\<close> and \<open>detectMedicineRepetition\<close>
  return the empty list, \<open>detectAllergyRisks\<close> two empty lists, and
  \<open>calculateHealthRiskScore\<close> the \<open>unknown\<close> result with score 0, whichever of its
  five queries is rejected, with nothing written.
\<close>

theorem faults_give_defaults:
  "(fs 0 \<noteq> None \<longrightarrow> detectDiseasePatterns fs now s pid = []) \<and>
   (fs 0 \<noteq> None \<or> fs 1 \<noteq> None \<longrightarrow>
      detectAllergyRisks fs s pid = \<lparr>prescriptionRisks = [], knownSideEffects = []\<rparr>) \<and>
   (fs 0 \<noteq> None \<longrightarrow> detectMedicineRepetition fs s pid = []) \<and>
   ((\<exists>i<5. fs i \<noteq> None) \<longrightarrow>
      calculateHealthRiskScore fs now s pid = (risk_unknown, s) \<and>
      rr_score risk_unknown = 0 \<and> rr_level risk_unknown = ''unknown'' \<and>
      rr_factors risk_unknown = [])"
proof -
  have 1: "fs 0 \<noteq> None \<longrightarrow> detectDiseasePatterns fs now s pid = []"
    by (auto simp: detectDiseasePatterns_def pool_query_def)
  have 2: "fs 0 \<noteq> None \<or> fs 1 \<noteq> None \<longrightarrow>
      detectAllergyRisks fs s pid = \<lparr>prescriptionRisks = [], knownSideEffects = []\<rparr>"
    by (auto simp: detectAllergyRisks_def pool_query_def split: option.splits)
  have 3: "fs 0 \<noteq> None \<longrightarrow> detectMedicineRepetition fs s pid = []"
    by (auto simp: detectMedicineRepetition_def pool_query_def)
  have 4: "(\<exists>i<5. fs i \<noteq> None) \<longrightarrow> calculateHealthRiskScore fs now s pid = (risk_unknown, s)"
  proof
    assume "\<exists>i<5. fs i \<noteq> None"
    then obtain i where i: "i < 5" "fs i \<noteq> None" by blast
    then show "calculateHealthRiskScore fs now s pid = (risk_unknown, s)"
      by (rule calc_fault)
  qed
  have 5: "rr_score risk_unknown = 0 \<and> rr_level risk_unknown = ''unknown'' \<and>
      rr_factors risk_unknown = []"
    by (simp add: risk_unknown_def)
  from 1 2 3 4 5 show ?thesis by blast
qed

theorem faults_give_defaults_witness:
  "detectDiseasePatterns (fault_at 0) noon risk_db 101 = [] \<and>
   detectAllergyRisks (fault_at 1) risk_db 101 = \<lparr>prescriptionRisks = [], knownSideEffects = []\<rparr> \<and>
   detectMedicineRepetition (fault_at 0) risk_db 101 = [] \<and>
   calculateHealthRiskScore (fault_at 4) noon risk_db 101 = (risk_unknown, risk_db)"
proof -
  have a: "fault_at 0 0 \<noteq> None" "fault_at 1 1 \<noteq> None" "fault_at 4 4 \<noteq> None"
    by (simp_all add: fault_at_def)
  have b: "\<exists>i<5. fault_at 4 i \<noteq> None" using a(3) by (intro exI [of _ 4]) simp
  from faults_give_defaults [of "fault_at 0" noon risk_db 101] a(1)
  have 1: "detectDiseasePatterns (fault_at 0) noon risk_db 101 = []"
    and 3: "detectMedicineRepetition (fault_at 0) risk_db 101 = []"
    by blast+
  from faults_give_defaults [of "fault_at 1" noon risk_db 101] a(2)
  have 2: "detectAllergyRisks (fault_at 1) risk_db 101 = \<lparr>prescriptionRisks = [], knownSideEffects = []\<rparr>"
    by blast
  from faults_give_defaults [of "fault_at 4" noon risk_db 101] b
  have 4: "calculateHealthRiskScore (fault_at 4) noon risk_db 101 = (risk_unknown, risk_db)"
    by blast
  from 1 2 3 4 show ?thesis by blast
qed

section \<open>One risk row per patient and day\<close>

text \<open>
  C1 on the code. The write of \<open>calculateHealthRiskScore\<close> is refused when the server
  parses it, so no call stores a row. Patient 101 of the example store is computed twice
  on 14 March 2025, and the pool rejects no query: the score computed is 42, both calls
  return the \<open>unknown\<close> result, and the store holds no row for the patient and the day
  afterwards, where one row is expected.
\<close>

theorem risk_score_never_stored:
  "ts_date noon = Date 2025 3 14 \<and> ts_date evening = Date 2025 3 14 \<and>
   rr_score (computed_result risk_db (Date 2025 3 14) 101) = 42 \<and>
   fst (calculateHealthRiskScore no_faults noon risk_db 101) = risk_unknown \<and>
   fst (twice no_faults noon no_faults evening risk_db 101) = risk_unknown \<and>
   day_rows (snd (calculateHealthRiskScore no_faults noon risk_db 101)) 101 (Date 2025 3 14) = [] \<and>
   day_rows (snd (twice no_faults noon no_faults evening risk_db 101)) 101 (Date 2025 3 14) = []"
  by (simp add: noon_def evening_def risk_db_computed calc_refused twice_def day_rows_def
        risk_db_tables)

section \<open>Disease patterns\<close>

lemma order_by_desc_set: "set (order_by_desc k rows) = set rows"
  by (simp add: order_by_desc_def)

lemma order_by_desc_distinct: "distinct (order_by_desc k rows) = distinct rows"
  by (simp add: order_by_desc_def)

lemma order_by_desc_sorted: "sorted_wrt (\<lambda>a b. k b \<le> k a) (order_by_desc k rows)"
proof -
  have "sorted (map (\<lambda>r. - int (k r)) (order_by_desc k rows))"
    unfolding order_by_desc_def by (rule sorted_sort_key)
  then show ?thesis by (simp add: sorted_map)
qed

lemma order_by_desc_names:
  assumes "distinct (map f rows)"
  shows "distinct (map f (order_by_desc k rows)) \<and>
         set (map f (order_by_desc k rows)) = set (map f rows)"
  using assms by (simp add: distinct_map order_by_desc_def)

lemma select_disease_patterns_names:
  "distinct (map dg_disease_name (select_disease_patterns s today pid)) \<and>
   set (map dg_disease_name (select_disease_patterns s today pid)) =
     dh_disease_name ` set (recent_diseases s today pid)"
proof -
  let ?rows = "recent_diseases s today pid"
  let ?mk = "\<lambda>n. \<lparr>dg_disease_name = n,
                     dg_frequency = length (filter (\<lambda>d. dh_disease_name d = n) ?rows),
                     dg_first_occurrence =
                       min_date (map dh_diagnosed_date (filter (\<lambda>d. dh_disease_name d = n) ?rows)),
                     dg_last_occurrence =
                       max_date (map dh_diagnosed_date (filter (\<lambda>d. dh_disease_name d = n) ?rows))\<rparr>"
  let ?groups = "map ?mk (remdups (map dh_disease_name ?rows))"
  have sel: "select_disease_patterns s today pid = order_by_desc dg_frequency ?groups"
    by (simp add: select_disease_patterns_def Let_def)
  have n: "map dg_disease_name ?groups = remdups (map dh_disease_name ?rows)"
    by (simp add: comp_def)
  have "distinct (map dg_disease_name ?groups)"
    by (simp only: n distinct_remdups)
  from order_by_desc_names [OF this, of dg_frequency]
  have "distinct (map dg_disease_name (order_by_desc dg_frequency ?groups)) \<and>
        set (map dg_disease_name (order_by_desc dg_frequency ?groups)) =
          set (remdups (map dh_disease_name ?rows))"
    by (simp only: n)
  then show ?thesis
    by (simp only: sel set_remdups set_map)
qed

lemma select_disease_patterns_frequency:
  assumes "g \<in> set (select_disease_patterns s today pid)"
  shows "dg_frequency g = disease_count s today pid (dg_disease_name g)"
  using assms
  by (auto simp: select_disease_patterns_def order_by_desc_set disease_count_def Let_def)

lemma select_disease_patterns_sorted:
  "sorted_wrt (\<lambda>a b. dg_frequency b \<le> dg_frequency a) (select_disease_patterns s today pid)"
  by (simp add: select_disease_patterns_def Let_def order_by_desc_sorted)

text \<open>
  C8. When the query is answered, \<open>detectDiseasePatterns\<close> returns one entry for each
  distinct disease name among the patient's diagnoses of the last six months, in
  descending order of frequency; the frequency of an entry is the number of those
  diagnoses, \<open>is_chronic\<close> holds exactly from frequency 3, and the assessment is the
  chronic one from 3, the recurring one at 2 and the single-occurrence one at 1. With no
  such diagnoses the result is the empty list.
\<close>

theorem disease_patterns:
  assumes q: "fs 0 = None"
  shows "distinct (map dp_disease_name (detectDiseasePatterns fs now s pid)) \<and>
         set (map dp_disease_name (detectDiseasePatterns fs now s pid)) =
           dh_disease_name ` set (recent_diseases s (ts_date now) pid) \<and>
         sorted_wrt (\<lambda>a b. dp_frequency b \<le> dp_frequency a) (detectDiseasePatterns fs now s pid) \<and>
         (\<forall>e \<in> set (detectDiseasePatterns fs now s pid).
            dp_frequency e = disease_count s (ts_date now) pid (dp_disease_name e) \<and>
            dp_is_chronic e = (3 \<le> dp_frequency e) \<and>
            (3 \<le> dp_frequency e \<longrightarrow> dp_risk_assessment e =
               ''Possible chronic condition - recommend specialist consultation'') \<and>
            (dp_frequency e = 2 \<longrightarrow> dp_risk_assessment e =
               ''Recurring pattern detected - monitor closely'') \<and>
            (dp_frequency e = 1 \<longrightarrow> dp_risk_assessment e =
               ''Single occurrence - standard monitoring'')) \<and>
         (recent_diseases s (ts_date now) pid = [] \<longrightarrow> detectDiseasePatterns fs now s pid = [])"
proof -
  let ?rows = "select_disease_patterns s (ts_date now) pid"
  have r: "detectDiseasePatterns fs now s pid = map disease_pattern_of ?rows"
    by (simp add: detectDiseasePatterns_def pool_query_def q)
  have n: "map dp_disease_name (map disease_pattern_of ?rows) = map dg_disease_name ?rows"
    by (simp add: disease_pattern_of_def comp_def)
  have 1: "distinct (map dp_disease_name (detectDiseasePatterns fs now s pid)) \<and>
         set (map dp_disease_name (detectDiseasePatterns fs now s pid)) =
           dh_disease_name ` set (recent_diseases s (ts_date now) pid)"
    unfolding r n by (rule select_disease_patterns_names)
  have 2: "sorted_wrt (\<lambda>a b. dp_frequency b \<le> dp_frequency a) (detectDiseasePatterns fs now s pid)"
    unfolding r using select_disease_patterns_sorted [of s "ts_date now" pid]
    by (simp add: sorted_wrt_map disease_pattern_of_def)
  have 3: "dp_frequency e = disease_count s (ts_date now) pid (dp_disease_name e) \<and>
            dp_is_chronic e = (3 \<le> dp_frequency e) \<and>
            (3 \<le> dp_frequency e \<longrightarrow> dp_risk_assessment e =
               ''Possible chronic condition - recommend specialist consultation'') \<and>
            (dp_frequency e = 2 \<longrightarrow> dp_risk_assessment e =
               ''Recurring pattern detected - monitor closely'') \<and>
            (dp_frequency e = 1 \<longrightarrow> dp_risk_assessment e =
               ''Single occurrence - standard monitoring'')"
    if "e \<in> set (detectDiseasePatterns fs now s pid)" for e
  proof -
    from that obtain g where g: "g \<in> set ?rows" "e = disease_pattern_of g"
      by (auto simp: r)
    from select_disease_patterns_frequency [OF g(1)] show ?thesis
      by (simp add: g(2) disease_pattern_of_def)
  qed
  have 4: "recent_diseases s (ts_date now) pid = [] \<longrightarrow> detectDiseasePatterns fs now s pid = []"
    by (simp add: r select_disease_patterns_def order_by_desc_def)
  from 1 2 3 4 show ?thesis by blast
qed

lemma risk_db_disease_patterns:
  "detectDiseasePatterns no_faults noon risk_db 101 =
     [\<lparr>dp_disease_name = ''Diabetes'', dp_frequency = 3,
       dp_first_occurrence = Some (Date 2024 12 1), dp_last_occurrence = Some (Date 2025 2 20),
       dp_is_chronic = True,
       dp_risk_assessment = ''Possible chronic condition - recommend specialist consultation''\<rparr>]"
  by (simp add: detectDiseasePatterns_def pool_query_def no_faults_def noon_def
        select_disease_patterns_def risk_db_recent risk_db_tables order_by_desc_def
        disease_pattern_of_def min_date_def max_date_def date_le_def Let_def)

theorem disease_patterns_witness:
  "map dp_disease_name (detectDiseasePatterns no_faults noon risk_db 101) = [''Diabetes''] \<and>
   map dp_frequency (detectDiseasePatterns no_faults noon risk_db 101) = [3] \<and>
   disease_count risk_db (ts_date noon) 101 ''Diabetes'' = 3 \<and>
   map dp_is_chronic (detectDiseasePatterns no_faults noon risk_db 101) = [True]"
proof -
  let ?e = "\<lparr>dp_disease_name = ''Diabetes'', dp_frequency = 3,
       dp_first_occurrence = Some (Date 2024 12 1), dp_last_occurrence = Some (Date 2025 2 20),
       dp_is_chronic = True,
       dp_risk_assessment = ''Possible chronic condition - recommend specialist consultation''\<rparr>"
  have q: "no_faults 0 = None" by (simp add: no_faults_def)
  note t = disease_patterns [of no_faults noon risk_db 101, OF q]
  have "?e \<in> set (detectDiseasePatterns no_faults noon risk_db 101)"
    by (simp add: risk_db_disease_patterns)
  from bspec [OF t [THEN conjunct2, THEN conjunct2, THEN conjunct2, THEN conjunct1] this]
  have "dp_frequency ?e = disease_count risk_db (ts_date noon) 101 (dp_disease_name ?e)"
    by (rule conjunct1)
  then have "disease_count risk_db (ts_date noon) 101 ''Diabetes'' = 3" by simp
  then show ?thesis by (simp add: risk_db_disease_patterns)
qed

section \<open>Allergy risks\<close>

lemma allergy_reports_filter: "allergy_reports_of (filter Q rows) \<le> allergy_reports_of rows"
proof -
  have "length (filter (\<lambda>pr. pr_reported_allergy pr = Some True) (filter Q rows)) \<le>
        length (filter (\<lambda>pr. pr_reported_allergy pr = Some True) rows)"
    by (induction rows) auto
  then show ?thesis by (simp add: allergy_reports_of_def)
qed

lemma dosage_group_le: "length (dosage_group s pid n d) \<le> times_prescribed s pid n"
proof -
  have "length (filter (\<lambda>pr. pr_medicine_name pr = n \<and> pr_dosage pr = d) rows) \<le>
        length (filter (\<lambda>pr. pr_medicine_name pr = n) rows)" for rows :: "prescription list"
    by (induction rows) auto
  then show ?thesis by (simp add: dosage_group_def times_prescribed_def)
qed

lemma select_prescription_risks_row:
  assumes "r \<in> set (select_prescription_risks s pid)"
  shows "prr_times_prescribed r = length (dosage_group s pid (prr_medicine_name r) (prr_dosage r)) \<and>
         prr_allergy_reports r =
           allergy_reports_of (dosage_group s pid (prr_medicine_name r) (prr_dosage r)) \<and>
         (0 < prr_allergy_reports r \<or> 4 \<le> prr_times_prescribed r)"
  using assms
  by (auto simp: select_prescription_risks_def dosage_group_def Let_def)

lemma select_prescription_risks_keys:
  "map (\<lambda>r. (prr_medicine_name r, prr_dosage r)) (select_prescription_risks s pid) =
     filter (\<lambda>(n, d). 0 < allergy_reports_of (dosage_group s pid n d) \<or>
                       4 \<le> length (dosage_group s pid n d))
       (remdups (map (\<lambda>pr. (pr_medicine_name pr, pr_dosage pr)) (patient_prescriptions s pid)))"
  by (simp add: select_prescription_risks_def dosage_group_def Let_def filter_map comp_def
        case_prod_unfold)

lemma dosage_group_key:
  assumes "dosage_group s pid n d \<noteq> []"
  shows "(n, d) \<in> set (map (\<lambda>pr. (pr_medicine_name pr, pr_dosage pr)) (patient_prescriptions s pid))"
proof -
  from assms obtain pr where "pr \<in> set (dosage_group s pid n d)"
    by (cases "dosage_group s pid n d") auto
  then show ?thesis by (auto simp: dosage_group_def)
qed

lemma select_prescription_risks_member:
  "(n, d) \<in> set (map (\<lambda>r. (prr_medicine_name r, prr_dosage r)) (select_prescription_risks s pid)) \<longleftrightarrow>
     0 < allergy_reports_of (dosage_group s pid n d) \<or> 4 \<le> length (dosage_group s pid n d)"
proof -
  have "dosage_group s pid n d \<noteq> []"
    if "0 < allergy_reports_of (dosage_group s pid n d) \<or> 4 \<le> length (dosage_group s pid n d)"
    using that by (auto simp: allergy_reports_of_def)
  from dosage_group_key [OF this] show ?thesis
    unfolding select_prescription_risks_keys by auto
qed

lemma select_known_side_effects_empty:
  "select_known_side_effects s pid = [] \<longleftrightarrow>
     (\<forall>pr \<in> set (patient_prescriptions s pid). \<forall>m \<in> set (medicine_side_effects s).
        pr_medicine_name pr \<noteq> mse_medicine_name m)"
proof -
  have "select_known_side_effects s pid = [] \<longleftrightarrow>
        set (select_known_side_effects s pid) = {}"
    by simp
  also have "\<dots> \<longleftrightarrow> (\<forall>pr \<in> set (patient_prescriptions s pid). \<forall>m \<in> set (medicine_side_effects s).
        pr_medicine_name pr \<noteq> mse_medicine_name m)"
    by (auto simp: select_known_side_effects_def order_by_desc_set filter_empty_conv)
  finally show ?thesis .
qed

text \<open>
  C7, as amended. When both queries are answered, \<open>prescriptionRisks\<close> holds one entry for
  each (medicine, dosage) group of the patient's prescriptions that has a flagged
  dispensing or at least four prescriptions, and no other; an entry carries the size of
  its group and the number of flagged dispensings in it, and is labelled
  \<open>ALLERGY_ALERT\<close> exactly when that number is positive and \<open>FREQUENCY_WARNING\<close>
  exactly when it is zero. With no flagged dispensing and no medicine prescribed four
  times, \<open>prescriptionRisks\<close> is empty. \<open>knownSideEffects\<close> is empty exactly when
  none of the patient's prescribed medicines is in the side-effect catalog.
\<close>

theorem prescription_risks:
  assumes q: "fs 0 = None" "fs 1 = None"
  shows "distinct (map risk_key (prescriptionRisks (detectAllergyRisks fs s pid))) \<and>
         (\<forall>n d. (n, d) \<in> set (map risk_key (prescriptionRisks (detectAllergyRisks fs s pid))) \<longleftrightarrow>
            0 < allergy_reports_of (dosage_group s pid n d) \<or> 4 \<le> length (dosage_group s pid n d)) \<and>
         (\<forall>r \<in> set (prescriptionRisks (detectAllergyRisks fs s pid)).
            risk_times_prescribed r =
              length (dosage_group s pid (risk_medicine_name r) (risk_dosage r)) \<and>
            risk_allergy_reports r =
              allergy_reports_of (dosage_group s pid (risk_medicine_name r) (risk_dosage r)) \<and>
            (risk_level r = ''ALLERGY_ALERT'' \<longleftrightarrow> 0 < risk_allergy_reports r) \<and>
            (risk_level r = ''FREQUENCY_WARNING'' \<longleftrightarrow> risk_allergy_reports r = 0)) \<and>
         (allergy_reports_of (patient_prescriptions s pid) = 0 \<and>
          (\<forall>n. times_prescribed s pid n < 4) \<longrightarrow>
            prescriptionRisks (detectAllergyRisks fs s pid) = []) \<and>
         (knownSideEffects (detectAllergyRisks fs s pid) = [] \<longleftrightarrow>
            (\<forall>pr \<in> set (patient_prescriptions s pid). \<forall>m \<in> set (medicine_side_effects s).
               pr_medicine_name pr \<noteq> mse_medicine_name m))"
proof -
  let ?rows = "select_prescription_risks s pid"
  from q(2) have q1: "fs (Suc 0) = None" by simp
  have r: "prescriptionRisks (detectAllergyRisks fs s pid) = map prescription_risk_of ?rows"
    and k: "knownSideEffects (detectAllergyRisks fs s pid) =
              map known_side_effect_of (select_known_side_effects s pid)"
    by (simp_all add: detectAllergyRisks_def pool_query_def q(1) q1)
  have keys: "map risk_key (map prescription_risk_of ?rows) =
                map (\<lambda>r. (prr_medicine_name r, prr_dosage r)) ?rows"
    by (simp add: risk_key_def prescription_risk_of_def comp_def)
  have 1: "distinct (map risk_key (prescriptionRisks (detectAllergyRisks fs s pid)))"
    unfolding r keys select_prescription_risks_keys by simp
  have 2: "\<forall>n d. (n, d) \<in> set (map risk_key (prescriptionRisks (detectAllergyRisks fs s pid))) \<longleftrightarrow>
            0 < allergy_reports_of (dosage_group s pid n d) \<or> 4 \<le> length (dosage_group s pid n d)"
    unfolding r keys using select_prescription_risks_member by blast
  have 3: "\<forall>r \<in> set (prescriptionRisks (detectAllergyRisks fs s pid)).
            risk_times_prescribed r =
              length (dosage_group s pid (risk_medicine_name r) (risk_dosage r)) \<and>
            risk_allergy_reports r =
              allergy_reports_of (dosage_group s pid (risk_medicine_name r) (risk_dosage r)) \<and>
            (risk_level r = ''ALLERGY_ALERT'' \<longleftrightarrow> 0 < risk_allergy_reports r) \<and>
            (risk_level r = ''FREQUENCY_WARNING'' \<longleftrightarrow> risk_allergy_reports r = 0)"
  proof
    fix e assume "e \<in> set (prescriptionRisks (detectAllergyRisks fs s pid))"
    then obtain g where g: "g \<in> set ?rows" "e = prescription_risk_of g"
      by (auto simp: r)
    from select_prescription_risks_row [OF g(1)]
    show "risk_times_prescribed e =
              length (dosage_group s pid (risk_medicine_name e) (risk_dosage e)) \<and>
            risk_allergy_reports e =
              allergy_reports_of (dosage_group s pid (risk_medicine_name e) (risk_dosage e)) \<and>
            (risk_level e = ''ALLERGY_ALERT'' \<longleftrightarrow> 0 < risk_allergy_reports e) \<and>
            (risk_level e = ''FREQUENCY_WARNING'' \<longleftrightarrow> risk_allergy_reports e = 0)"
      by (simp add: g(2) prescription_risk_of_def)
  qed
  have 4: "allergy_reports_of (patient_prescriptions s pid) = 0 \<and>
          (\<forall>n. times_prescribed s pid n < 4) \<longrightarrow>
            prescriptionRisks (detectAllergyRisks fs s pid) = []"
  proof
    assume a: "allergy_reports_of (patient_prescriptions s pid) = 0 \<and>
          (\<forall>n. times_prescribed s pid n < 4)"
    have "\<not> (0 < allergy_reports_of (dosage_group s pid n d) \<or> 4 \<le> length (dosage_group s pid n d))"
      for n d
    proof -
      from allergy_reports_filter [of "\<lambda>pr. pr_medicine_name pr = n \<and> pr_dosage pr = d"
             "patient_prescriptions s pid"] a
      have "allergy_reports_of (dosage_group s pid n d) = 0"
        by (simp add: dosage_group_def)
      moreover from dosage_group_le [of s pid n d] a have "length (dosage_group s pid n d) < 4"
        by (auto intro: le_less_trans)
      ultimately show ?thesis by simp
    qed
    then have "map (\<lambda>r. (prr_medicine_name r, prr_dosage r)) ?rows = []"
      unfolding select_prescription_risks_keys by (simp add: filter_empty_conv case_prod_unfold)
    then show "prescriptionRisks (detectAllergyRisks fs s pid) = []"
      by (simp add: r)
  qed
  have 5: "knownSideEffects (detectAllergyRisks fs s pid) = [] \<longleftrightarrow>
            (\<forall>pr \<in> set (patient_prescriptions s pid). \<forall>m \<in> set (medicine_side_effects s).
               pr_medicine_name pr \<noteq> mse_medicine_name m)"
    by (simp add: k select_known_side_effects_empty)
  from 1 2 3 4 5 show ?thesis by (intro conjI)
qed

lemma risk_db_allergy:
  "map risk_key (prescriptionRisks (detectAllergyRisks no_faults risk_db 101)) =
     [(''Aspirin'', ''500mg'')]"
  "map risk_level (prescriptionRisks (detectAllergyRisks no_faults risk_db 101)) =
     [''ALLERGY_ALERT'']"
  "allergy_reports_of (dosage_group risk_db 101 ''Aspirin'' ''500mg'') = 1"
  by (simp_all add: detectAllergyRisks_def pool_query_def no_faults_def risk_key_def
        select_prescription_risks_def risk_db_prescriptions
        risk_db_prescription_table allergy_reports_of_def
        prescription_risk_of_def dosage_group_def comp_def Let_def)

theorem prescription_risks_witness:
  "(''Aspirin'', ''500mg'') \<in>
     set (map risk_key (prescriptionRisks (detectAllergyRisks no_faults risk_db 101))) \<and>
   allergy_reports_of (dosage_group risk_db 101 ''Aspirin'' ''500mg'') = 1 \<and>
   map risk_level (prescriptionRisks (detectAllergyRisks no_faults risk_db 101)) =
     [''ALLERGY_ALERT'']"
proof -
  have q: "no_faults 0 = None" "no_faults 1 = None" by (simp_all add: no_faults_def)
  note t = prescription_risks [of no_faults risk_db 101, OF q]
  have a: "0 < allergy_reports_of (dosage_group risk_db 101 ''Aspirin'' ''500mg'') \<or>
           4 \<le> length (dosage_group risk_db 101 ''Aspirin'' ''500mg'')"
    by (simp add: risk_db_allergy)
  from t [THEN conjunct2, THEN conjunct1, rule_format, THEN iffD2, OF a]
  show ?thesis by (simp add: risk_db_allergy)
qed

lemma allergy_db_tables:
  "appointments allergy_db =
        [\<lparr>a_appointment_id = 31, a_patient_id = Some 201, a_doctor_id = Some 7\<rparr>,
         \<lparr>a_appointment_id = 32, a_patient_id = Some 202, a_doctor_id = Some 7\<rparr>]"
  "prescriptions allergy_db =
        [\<lparr>pr_prescription_id = 41, pr_appointment_id = Some 31, pr_medicine_name = ''Ibuprofen'',
          pr_dosage = ''200mg'', pr_created_at = Some (Timestamp (Date 2025 3 1) 0),
          pr_side_effects = None, pr_reported_allergy = Some False\<rparr>,
         \<lparr>pr_prescription_id = 42, pr_appointment_id = Some 31, pr_medicine_name = ''Ibuprofen'',
          pr_dosage = ''200mg'', pr_created_at = Some (Timestamp (Date 2025 3 2) 0),
          pr_side_effects = None, pr_reported_allergy = Some False\<rparr>,
         \<lparr>pr_prescription_id = 43, pr_appointment_id = Some 31, pr_medicine_name = ''Ibuprofen'',
          pr_dosage = ''400mg'', pr_created_at = Some (Timestamp (Date 2025 3 3) 0),
          pr_side_effects = None, pr_reported_allergy = Some False\<rparr>,
         \<lparr>pr_prescription_id = 44, pr_appointment_id = Some 31, pr_medicine_name = ''Ibuprofen'',
          pr_dosage = ''400mg'', pr_created_at = Some (Timestamp (Date 2025 3 4) 0),
          pr_side_effects = None, pr_reported_allergy = Some False\<rparr>,
         \<lparr>pr_prescription_id = 45, pr_appointment_id = Some 32, pr_medicine_name = ''Ibuprofen'',
          pr_dosage = ''200mg'', pr_created_at = Some (Timestamp (Date 2025 3 5) 0),
          pr_side_effects = None, pr_reported_allergy = Some False\<rparr>]"
  "medicine_side_effects allergy_db =
        [\<lparr>mse_medicine_name = ''Ibuprofen'', mse_side_effect = ''Stomach upset'',
          mse_severity = Some ''moderate''\<rparr>]"
  by (simp_all add: allergy_db_def)

lemma allergy_db_prescriptions:
  "patient_prescriptions allergy_db 201 = take 4 (prescriptions allergy_db)"
  "patient_prescriptions allergy_db 202 = drop 4 (prescriptions allergy_db)"
  by (simp_all add: patient_prescriptions_def allergy_db_tables)

text \<open>
  C7 as stated fails twice on this store. Patient 201 has four prescriptions of
  Ibuprofen, yet \<open>prescriptionRisks\<close> is empty: the query groups by medicine and dosage,
  and neither dosage reaches four. Patient 202 has no flagged dispensing and one
  prescription, yet \<open>knownSideEffects\<close> is not empty: that list comes from the catalog,
  whatever the flags and the counts.
\<close>

theorem allergy_lists_counterexample:
  "times_prescribed allergy_db 201 ''Ibuprofen'' = 4 \<and>
   prescriptionRisks (detectAllergyRisks no_faults allergy_db 201) = [] \<and>
   allergy_reports_of (patient_prescriptions allergy_db 202) = 0 \<and>
   length (patient_prescriptions allergy_db 202) = 1 \<and>
   prescriptionRisks (detectAllergyRisks no_faults allergy_db 202) = [] \<and>
   knownSideEffects (detectAllergyRisks no_faults allergy_db 202) =
     [\<lparr>effect_medicine_name = ''Ibuprofen'', effect_side_effect = ''Stomach upset'',
       effect_severity = Some ''moderate'', effect_alert_level = ''WARNING''\<rparr>]"
  by (simp add: detectAllergyRisks_def pool_query_def no_faults_def times_prescribed_def
        select_prescription_risks_def select_known_side_effects_def allergy_db_prescriptions
        allergy_db_tables allergy_reports_of_def array_agg_distinct_def
        non_null_def order_by_desc_def known_side_effect_of_def Let_def)

section \<open>Medicine repetition\<close>

lemma length_left_join: "length (left_join P ys) = max 1 (length (filter P ys))"
  by (cases "filter P ys") (simp_all add: left_join_def)

lemma repetition_rows_fst: "r \<in> set (repetition_rows s pid p) \<Longrightarrow> fst r = p"
  by (auto simp: repetition_rows_def split: option.splits if_splits)

lemma repetition_inner_length:
  "length (concat (map (\<lambda>a. if a_patient_id a = Some pid
                              then map (\<lambda>d. (p, d))
                                     (left_join (\<lambda>d. a_patient_id a \<noteq> None \<and>
                                                      a_patient_id a = dh_patient_id d)
                                        (disease_history s))
                              else []) as)) =
   length (filter (\<lambda>a. a_patient_id a = Some pid) as) * max 1 (disease_rows s pid)"
proof (induction as)
  case Nil
  then show ?case by simp
next
  case (Cons a as)
  have "filter (\<lambda>d. Some pid = dh_patient_id d) (disease_history s) =
        filter (\<lambda>d. dh_patient_id d = Some pid) (disease_history s)"
    by (rule filter_cong) auto
  with Cons show ?case
    by (simp add: length_left_join disease_rows_def)
qed

lemma repetition_rows_length:
  "length (repetition_rows s pid p) =
     length (filter (\<lambda>a. pr_appointment_id p = Some (a_appointment_id a) \<and>
                          a_patient_id a = Some pid) (appointments s)) *
     max 1 (disease_rows s pid)"
proof (cases "filter (\<lambda>a. pr_appointment_id p = Some (a_appointment_id a)) (appointments s) = []")
  case True
  then have "filter (\<lambda>a. pr_appointment_id p = Some (a_appointment_id a) \<and>
                          a_patient_id a = Some pid) (appointments s) = []"
    by (auto simp: filter_empty_conv)
  with True show ?thesis by (simp add: repetition_rows_def left_join_def)
next
  case False
  have "length (repetition_rows s pid p) =
          length (filter (\<lambda>a. a_patient_id a = Some pid)
                    (filter (\<lambda>a. pr_appointment_id p = Some (a_appointment_id a)) (appointments s))) *
          max 1 (disease_rows s pid)"
    using False repetition_inner_length
            [of pid p s "filter (\<lambda>a. pr_appointment_id p = Some (a_appointment_id a)) (appointments s)"]
    by (simp add: repetition_rows_def left_join_def comp_def)
  then show ?thesis by (simp add: conj_commute)
qed

lemma repetition_rows_filter:
  "filter (\<lambda>(q, d). pr_medicine_name q = n) (repetition_rows s pid p) =
     (if pr_medicine_name p = n then repetition_rows s pid p else [])"
proof -
  have "\<forall>r \<in> set (repetition_rows s pid p). fst r = p"
    using repetition_rows_fst by blast
  then show ?thesis
    by (auto simp: filter_empty_conv case_prod_unfold intro: filter_True)
qed

lemma repetition_count_general:
  "length (filter (\<lambda>(q, d). pr_medicine_name q = n) (concat (map (repetition_rows s pid) ps))) =
   length (filter (\<lambda>pr. pr_medicine_name pr = n)
             (concat (map (\<lambda>pr. map (\<lambda>a. pr)
                (filter (\<lambda>a. pr_appointment_id pr = Some (a_appointment_id a) \<and>
                              a_patient_id a = Some pid) (appointments s))) ps))) *
   max 1 (disease_rows s pid)"
proof (induction ps)
  case Nil
  then show ?case by simp
next
  case (Cons p ps)
  then show ?case
    by (simp add: repetition_rows_filter repetition_rows_length add_mult_distrib)
qed

lemma repetition_count:
  "length (filter (\<lambda>(q, d). pr_medicine_name q = n) (select_repetition_join s pid)) =
     times_prescribed s pid n * max 1 (disease_rows s pid)"
  using repetition_count_general [of n s pid "prescriptions s"]
  by (simp add: select_repetition_join_def times_prescribed_def patient_prescriptions_def)

lemma string_includes_append: "string_includes ys n \<Longrightarrow> string_includes (xs @ ys) n"
proof (induction xs)
  case Nil
  then show ?case by simp
next
  case (Cons x xs)
  then show ?case by simp
qed

lemma select_medicine_repetition_row:
  assumes "r \<in> set (select_medicine_repetition s pid)"
  shows "rep_prescription_count r =
           times_prescribed s pid (rep_medicine_name r) * max 1 (disease_rows s pid) \<and>
         2 < rep_prescription_count r"
  using assms
  by (auto simp: select_medicine_repetition_def order_by_desc_set Let_def repetition_count)

lemma select_medicine_repetition_names:
  "distinct (map rep_medicine_name (select_medicine_repetition s pid)) \<and>
   set (map rep_medicine_name (select_medicine_repetition s pid)) =
     {n. 2 < times_prescribed s pid n * max 1 (disease_rows s pid)}"
proof -
  let ?rows = "select_repetition_join s pid"
  let ?names = "remdups (map (\<lambda>(p, d). pr_medicine_name p) ?rows)"
  let ?mk = "\<lambda>n. \<lparr>rep_medicine_name = n,
               rep_prescription_count = length (filter (\<lambda>(p, d). pr_medicine_name p = n) ?rows),
               rep_associated_diseases =
                 string_agg '', ''
                   (remdups (non_null (map (\<lambda>(p, d). map_option dh_disease_name d)
                      (filter (\<lambda>(p, d). pr_medicine_name p = n) ?rows)))),
               rep_last_prescribed =
                 max_timestamp (non_null (map (\<lambda>(p, d). pr_created_at p)
                   (filter (\<lambda>(p, d). pr_medicine_name p = n) ?rows)))\<rparr>"
  let ?kept = "filter (\<lambda>r. 2 < rep_prescription_count r) (map ?mk ?names)"
  have sel: "select_medicine_repetition s pid = order_by_desc rep_prescription_count ?kept"
    by (simp add: select_medicine_repetition_def Let_def)
  have n: "map rep_medicine_name ?kept =
             filter (\<lambda>n. 2 < times_prescribed s pid n * max 1 (disease_rows s pid)) ?names"
    by (simp add: filter_map comp_def repetition_count)
  have "distinct (map rep_medicine_name ?kept)"
    by (simp only: n distinct_remdups distinct_filter)
  from order_by_desc_names [OF this, of rep_prescription_count]
  have 1: "distinct (map rep_medicine_name (order_by_desc rep_prescription_count ?kept)) \<and>
        set (map rep_medicine_name (order_by_desc rep_prescription_count ?kept)) =
          set (filter (\<lambda>n. 2 < times_prescribed s pid n * max 1 (disease_rows s pid)) ?names)"
    by (simp only: n)
  have 2: "n \<in> set ?names" if "2 < times_prescribed s pid n * max 1 (disease_rows s pid)" for n
  proof -
    from that repetition_count [of n s pid]
    have "2 < length (filter (\<lambda>(q, d). pr_medicine_name q = n) ?rows)"
      by (simp only:)
    then have "0 < length (filter (\<lambda>(q, d). pr_medicine_name q = n) ?rows)"
      by (rule less_trans [rotated]) simp
    then have "filter (\<lambda>(q, d). pr_medicine_name q = n) ?rows \<noteq> []"
      by auto
    then obtain r where "r \<in> set ?rows" "pr_medicine_name (fst r) = n"
      by (auto simp: filter_empty_conv)
    then show ?thesis by (force simp: case_prod_unfold)
  qed
  have "set (filter (\<lambda>n. 2 < times_prescribed s pid n * max 1 (disease_rows s pid)) ?names) =
          {n. 2 < times_prescribed s pid n * max 1 (disease_rows s pid)}"
    using 2 by auto
  with 1 show ?thesis by (simp only: sel)
qed

lemma medicine_repetition_counts:
  assumes q: "fs 0 = None"
  shows "(\<forall>n. n \<in> set (map med_medicine_name (detectMedicineRepetition fs s pid)) \<longleftrightarrow>
            2 < times_prescribed s pid n * max 1 (disease_rows s pid)) \<and>
         distinct (map med_medicine_name (detectMedicineRepetition fs s pid)) \<and>
         sorted_wrt (\<lambda>a b. med_prescription_count b \<le> med_prescription_count a)
           (detectMedicineRepetition fs s pid) \<and>
         (\<forall>m \<in> set (detectMedicineRepetition fs s pid).
            med_prescription_count m =
              times_prescribed s pid (med_medicine_name m) * max 1 (disease_rows s pid) \<and>
            (med_risk_level m = ''high'' \<longleftrightarrow> 4 < med_prescription_count m) \<and>
            (med_risk_level m = ''moderate'' \<longleftrightarrow> med_prescription_count m \<le> 4) \<and>
            med_warning m =
              med_medicine_name m @ '' prescribed '' @ show_nat (med_prescription_count m) @
              '' times '' @ en_dash @
              (if 4 < med_prescription_count m then '' risk of dependency.''
               else '' monitor usage.'') \<and>
            (4 < med_prescription_count m \<longrightarrow> string_includes (med_warning m) ''dependency''))"
proof -
  let ?rows = "select_medicine_repetition s pid"
  have r: "detectMedicineRepetition fs s pid = map medicine_repetition_of ?rows"
    by (simp add: detectMedicineRepetition_def pool_query_def q)
  have n: "map med_medicine_name (map medicine_repetition_of ?rows) = map rep_medicine_name ?rows"
    by (simp add: medicine_repetition_of_def comp_def)
  from select_medicine_repetition_names [of s pid]
  have 1: "\<forall>n. n \<in> set (map med_medicine_name (detectMedicineRepetition fs s pid)) \<longleftrightarrow>
            2 < times_prescribed s pid n * max 1 (disease_rows s pid)"
    and 2: "distinct (map med_medicine_name (detectMedicineRepetition fs s pid))"
    unfolding r n by blast+
  have 3: "sorted_wrt (\<lambda>a b. med_prescription_count b \<le> med_prescription_count a)
           (detectMedicineRepetition fs s pid)"
    unfolding r
    using order_by_desc_sorted [of rep_prescription_count]
    by (simp add: sorted_wrt_map medicine_repetition_of_def select_medicine_repetition_def Let_def)
  have d: "string_includes (xs @ '' risk of dependency.'') ''dependency''" for xs
    by (rule string_includes_append) simp
  have 4: "\<forall>m \<in> set (detectMedicineRepetition fs s pid).
            med_prescription_count m =
              times_prescribed s pid (med_medicine_name m) * max 1 (disease_rows s pid) \<and>
            (med_risk_level m = ''high'' \<longleftrightarrow> 4 < med_prescription_count m) \<and>
            (med_risk_level m = ''moderate'' \<longleftrightarrow> med_prescription_count m \<le> 4) \<and>
            med_warning m =
              med_medicine_name m @ '' prescribed '' @ show_nat (med_prescription_count m) @
              '' times '' @ en_dash @
              (if 4 < med_prescription_count m then '' risk of dependency.''
               else '' monitor usage.'') \<and>
            (4 < med_prescription_count m \<longrightarrow> string_includes (med_warning m) ''dependency'')"
  proof
    fix m assume "m \<in> set (detectMedicineRepetition fs s pid)"
    then obtain g where g: "g \<in> set ?rows" "m = medicine_repetition_of g"
      by (auto simp: r)
    have w: "4 < rep_prescription_count g \<longrightarrow> string_includes (med_warning m) ''dependency''"
      using d [of "rep_medicine_name g @ '' prescribed '' @ show_nat (rep_prescription_count g) @
                   '' times '' @ en_dash"]
      by (simp add: g(2) medicine_repetition_of_def)
    from select_medicine_repetition_row [OF g(1)] w
    show "med_prescription_count m =
              times_prescribed s pid (med_medicine_name m) * max 1 (disease_rows s pid) \<and>
            (med_risk_level m = ''high'' \<longleftrightarrow> 4 < med_prescription_count m) \<and>
            (med_risk_level m = ''moderate'' \<longleftrightarrow> med_prescription_count m \<le> 4) \<and>
            med_warning m =
              med_medicine_name m @ '' prescribed '' @ show_nat (med_prescription_count m) @
              '' times '' @ en_dash @
              (if 4 < med_prescription_count m then '' risk of dependency.''
               else '' monitor usage.'') \<and>
            (4 < med_prescription_count m \<longrightarrow> string_includes (med_warning m) ''dependency'')"
      by (simp add: g(2) medicine_repetition_of_def)
  qed
  from 1 2 3 4 show ?thesis by (intro conjI)
qed

lemma set_map_const:
  assumes "xs \<noteq> []" "\<forall>x \<in> set xs. f x = c"
  shows "set (map f xs) = {c}"
  using assms by (cases xs) auto

lemma risk_db_usage:
  "times_prescribed risk_db 101 n = (if n = ''Aspirin'' \<or> n = ''Metformin'' then 1 else 0)"
  "disease_rows risk_db 101 = 3"
  by (auto simp: times_prescribed_def disease_rows_def risk_db_prescriptions
        risk_db_prescription_table risk_db_tables)

text \<open>
  C2 on the code. Patient 101 has one prescription of Aspirin, one of Metformin, and
  three \<open>disease_history\<close> rows. The \<open>LEFT JOIN\<close> on \<open>disease_history\<close> repeats every
  prescription once per disease row before \<open>COUNT(*)\<close>, so both medicines are returned,
  each with \<open>prescription_count\<close> 3.
\<close>

theorem medicine_repetition_fan_out:
  "times_prescribed risk_db 101 ''Aspirin'' = 1 \<and>
   times_prescribed risk_db 101 ''Metformin'' = 1 \<and>
   disease_rows risk_db 101 = 3 \<and>
   set (map med_medicine_name (detectMedicineRepetition no_faults risk_db 101)) =
     {''Aspirin'', ''Metformin''} \<and>
   set (map med_prescription_count (detectMedicineRepetition no_faults risk_db 101)) = {3}"
proof -
  let ?R = "detectMedicineRepetition no_faults risk_db 101"
  have q: "no_faults 0 = None" by (simp add: no_faults_def)
  note t = medicine_repetition_counts [of no_faults risk_db 101, OF q]
  from t [THEN conjunct1]
  have names: "set (map med_medicine_name ?R) = {''Aspirin'', ''Metformin''}"
    by (auto simp: risk_db_usage simp del: set_map split: if_splits)
  have c: "med_prescription_count m = 3" if "m \<in> set ?R" for m
  proof -
    from that have "med_medicine_name m \<in> set (map med_medicine_name ?R)" by simp
    with names have "med_medicine_name m = ''Aspirin'' \<or> med_medicine_name m = ''Metformin''"
      by simp
    with bspec [OF t [THEN conjunct2, THEN conjunct2, THEN conjunct2] that, THEN conjunct1]
    show ?thesis by (auto simp: risk_db_usage)
  qed
  have "''Aspirin'' \<in> set (map med_medicine_name ?R)"
    by (simp only: names insert_iff simp_thms)
  then have "?R \<noteq> []" by auto
  then have counts: "set (map med_prescription_count ?R) = {3}"
    by (rule set_map_const) (simp add: c)
  have u: "times_prescribed risk_db 101 ''Aspirin'' = 1"
    "times_prescribed risk_db 101 ''Metformin'' = 1"
    by (simp_all add: risk_db_usage)
  from u risk_db_usage(2) names counts show ?thesis by (intro conjI)
qed

section \<open>JSON text: strings\<close>

lemma hex_val_hex_digit: "k < 16 \<Longrightarrow> hex_val (hex_digit k) = Some k"
proof -
  have "\<forall>k \<in> set [0..<16]. hex_val (hex_digit k) = Some k"
    by (simp add: upt_rec hex_val_def hex_digit_def)
  then show "k < 16 \<Longrightarrow> hex_val (hex_digit k) = Some k" by simp
qed

lemma hex4_control:
  assumes "n < 32"
  shows "hex4 (CHR ''0'') (CHR ''0'') (hex_digit (n div 16)) (hex_digit (n mod 16)) = Some n"
proof -
  from assms have "n div 16 < 16" by simp
  then have a: "hex_val (hex_digit (n div 16)) = Some (n div 16)" by (rule hex_val_hex_digit)
  have b: "hex_val (hex_digit (n mod 16)) = Some (n mod 16)" by (rule hex_val_hex_digit) simp
  have z: "hex_val (CHR ''0'') = Some 0" by (simp add: hex_val_def)
  show ?thesis by (simp add: hex4_def a b z)
qed

lemma utf8_ascii: "(of_char c :: nat) < 128 \<Longrightarrow> utf8 (of_char c) = [c]"
  by (simp add: utf8_def)

lemma parse_chars_escape:
  "parse_chars (escape_char c @ rest) = map_option (\<lambda>(s, r). (c # s, r)) (parse_chars rest)"
proof -
  consider (special) "c = dquote \<or> c = backslash \<or> c = CHR 0x08 \<or> c = CHR 0x0C \<or> c = CHR 0x0A \<or>
      c = CHR 0x0D \<or> c = CHR 0x09"
    | (control) "\<not> (c = dquote \<or> c = backslash \<or> c = CHR 0x08 \<or> c = CHR 0x0C \<or> c = CHR 0x0A \<or>
      c = CHR 0x0D \<or> c = CHR 0x09)" "(of_char c :: nat) < 32"
    | (plain) "\<not> (c = dquote \<or> c = backslash \<or> c = CHR 0x08 \<or> c = CHR 0x0C \<or> c = CHR 0x0A \<or>
      c = CHR 0x0D \<or> c = CHR 0x09)" "\<not> (of_char c :: nat) < 32"
    by blast
  then show ?thesis
  proof cases
    case special
    then show ?thesis
      by (auto simp: escape_char_def unescape_def dquote_def backslash_def)
  next
    case control
    from control(2) have u: "utf8 (of_char c) = [c]" by (simp add: utf8_ascii)
    from control show ?thesis
      by (simp add: escape_char_def backslash_def dquote_def hex4_control u)
  next
    case plain
    then show ?thesis
      by (simp add: escape_char_def)
  qed
qed

lemma parse_chars_quote:
  "parse_chars (concat (map escape_char s) @ dquote # r) = Some (s, r)"
proof (induction s)
  case Nil
  then show ?case by simp
next
  case (Cons c s)
  have "parse_chars (concat (map escape_char (c # s)) @ dquote # r) =
          parse_chars (escape_char c @ (concat (map escape_char s) @ dquote # r))"
    by simp
  also have "\<dots> = map_option (\<lambda>(s, r). (c # s, r))
                      (parse_chars (concat (map escape_char s) @ dquote # r))"
    by (rule parse_chars_escape)
  finally show ?case by (simp add: Cons)
qed

section \<open>JSON text: numbers\<close>

lemma digit_chars:
  assumes "k < 10"
  shows "is_digit (''0123456789'' ! k)" "digit_val (''0123456789'' ! k) = k"
    "0 < k \<Longrightarrow> ''0123456789'' ! k \<noteq> CHR ''0''"
proof -
  have "\<forall>k \<in> set [0..<10]. is_digit (''0123456789'' ! k) \<and> digit_val (''0123456789'' ! k) = k \<and>
          (0 < k \<longrightarrow> ''0123456789'' ! k \<noteq> CHR ''0'')"
    by (simp add: upt_rec is_digit_def digit_val_def)
  with assms show "is_digit (''0123456789'' ! k)" "digit_val (''0123456789'' ! k) = k"
    "0 < k \<Longrightarrow> ''0123456789'' ! k \<noteq> CHR ''0''"
    by simp_all
qed

lemma show_nat_digits: "show_nat n \<noteq> [] \<and> (\<forall>c \<in> set (show_nat n). is_digit c)"
proof (induction n rule: show_nat.induct)
  case (1 n)
  show ?case
  proof (cases "n < 10")
    case True
    then show ?thesis by (simp add: show_nat.simps [of n] digit_chars)
  next
    case False
    with 1 show ?thesis by (simp add: show_nat.simps [of n] digit_chars)
  qed
qed

lemma show_nat_value: "foldl (\<lambda>a c. 10 * a + digit_val c) 0 (show_nat n) = n"
proof (induction n rule: show_nat.induct)
  case (1 n)
  show ?case
  proof (cases "n < 10")
    case True
    then show ?thesis by (simp add: show_nat.simps [of n] digit_chars)
  next
    case False
    with 1 show ?thesis by (simp add: show_nat.simps [of n] digit_chars)
  qed
qed

lemma show_nat_hd: "0 < n \<Longrightarrow> hd (show_nat n) \<noteq> CHR ''0''"
proof (induction n rule: show_nat.induct)
  case (1 n)
  show ?case
  proof (cases "n < 10")
    case True
    then have "show_nat n = [''0123456789'' ! n]"
      by (simp only: show_nat.simps [of n] if_True)
    with digit_chars(3) [OF True 1(2)] show ?thesis
      by (simp only: list.sel simp_thms)
  next
    case False
    then have "0 < n div 10" by simp
    with 1(1) False have "hd (show_nat (n div 10)) \<noteq> CHR ''0''" by simp
    with False show ?thesis
      using show_nat_digits [of "n div 10"] by (simp add: show_nat.simps [of n])
  qed
qed

lemma show_nat_long: "1 < length (show_nat n) \<Longrightarrow> 0 < n"
  by (cases "n = 0") (simp_all add: show_nat.simps [of 0])

lemma parse_nat_show_nat:
  assumes "number_end r"
  shows "parse_nat (show_nat n @ r) = Some (n, r)"
proof -
  from show_nat_digits [of n] have d: "\<forall>c \<in> set (show_nat n). is_digit c" and ne: "show_nat n \<noteq> []"
    by simp_all
  from assms have r: "takeWhile is_digit r = []" "dropWhile is_digit r = r"
    by (cases r; simp add: number_end_def)+
  from d r have t: "takeWhile is_digit (show_nat n @ r) = show_nat n"
    by (simp add: takeWhile_append2)
  from d r have dr: "dropWhile is_digit (show_nat n @ r) = r"
    by (simp add: dropWhile_append2)
  have z: "\<not> (1 < length (show_nat n) \<and> hd (show_nat n) = CHR ''0'')"
    using show_nat_long [of n] show_nat_hd [of n] by blast
  from assms have e: "\<not> (r \<noteq> [] \<and> (hd r = CHR ''.'' \<or> hd r = CHR ''e'' \<or> hd r = CHR ''E''))"
    by (auto simp: number_end_def)
  show ?thesis
    unfolding parse_nat_def t dr Let_def using ne z e by (simp add: show_nat_value)
qed

lemma parse_number_show_int:
  assumes "number_end r"
  shows "parse_number (show_int i @ r) = Some (JNumber i, r)"
proof (cases "i < 0")
  case True
  then show ?thesis
    by (simp add: parse_number_def show_int_def parse_nat_show_nat [OF assms])
next
  case False
  from show_nat_digits [of "nat i"] obtain c cs where s: "show_nat (nat i) = c # cs" and "is_digit c"
    by (cases "show_nat (nat i)") auto
  then have "c \<noteq> CHR ''-''" by (auto simp: is_digit_def)
  with False show ?thesis
    using parse_nat_show_nat [OF assms, of "nat i"]
    by (simp add: parse_number_def show_int_def s)
qed


section \<open>JSON text: values\<close>

lemma delim_number_end: "delim r \<Longrightarrow> number_end r"
  by (auto simp: delim_def number_end_def is_digit_def)

lemma delim_skip_ws: "delim r \<Longrightarrow> skip_ws r = r"
  by (cases r) (auto simp: delim_def skip_ws_def is_ws_def)

lemma skip_ws_delim:
  "skip_ws (CHR '','' # x) = CHR '','' # x"
  "skip_ws (CHR '']'' # x) = CHR '']'' # x"
  "skip_ws (CHR ''}'' # x) = CHR ''}'' # x"
  "skip_ws (CHR '':'' # x) = CHR '':'' # x"
  "skip_ws (CHR ''['' # x) = CHR ''['' # x"
  "skip_ws (CHR ''{'' # x) = CHR ''{'' # x"
  "skip_ws (dquote # x) = dquote # x"
  "skip_ws [] = []"
  by (simp_all add: skip_ws_def is_ws_def dquote_def)

lemma first_ok_skip_ws: "first_ok s \<Longrightarrow> skip_ws (s @ r) = s @ r"
  by (cases s) (auto simp: first_ok_def skip_ws_def)

lemma number_start:
  assumes "c = CHR ''-'' \<or> is_digit c"
  shows "c \<noteq> CHR ''n''" "c \<noteq> CHR ''t''" "c \<noteq> CHR ''f''" "c \<noteq> dquote" "c \<noteq> CHR ''[''"
    "c \<noteq> CHR ''{''" "c \<noteq> CHR '']''" "c \<noteq> CHR ''}''" "\<not> is_ws c"
  using assms by (auto simp: is_digit_def dquote_def is_ws_def)

lemma show_int_start: "\<exists>c cs. show_int i = c # cs \<and> (c = CHR ''-'' \<or> is_digit c)"
proof (cases "i < 0")
  case True
  then show ?thesis by (simp add: show_int_def)
next
  case False
  from show_nat_digits [of "nat i"] obtain c cs where "show_nat (nat i) = c # cs" "is_digit c"
    by (cases "show_nat (nat i)") auto
  with False show ?thesis by (simp add: show_int_def)
qed

lemma stringify_first: "first_ok (stringify v)"
proof (cases v)
  case (JNumber i)
  from show_int_start [of i] obtain c cs where "show_int i = c # cs" "c = CHR ''-'' \<or> is_digit c"
    by blast
  with number_start [of c] JNumber show ?thesis by (simp add: first_ok_def)
qed (simp_all add: first_ok_def is_ws_def quote_def dquote_def)

lemma parse_value_atoms:
  assumes "delim r"
  shows "parse_value (Suc n) (''null'' @ r) = Some (JNull, r)"
    "parse_value (Suc n) (''true'' @ r) = Some (JBool True, r)"
    "parse_value (Suc n) (''false'' @ r) = Some (JBool False, r)"
    "parse_value (Suc n) (show_int i @ r) = Some (JNumber i, r)"
    "parse_value (Suc n) (quote s @ r) = Some (JString s, r)"
proof -
  show "parse_value (Suc n) (''null'' @ r) = Some (JNull, r)"
    "parse_value (Suc n) (''true'' @ r) = Some (JBool True, r)"
    "parse_value (Suc n) (''false'' @ r) = Some (JBool False, r)"
    by (simp_all add: skip_ws_def is_ws_def parse_literal_def)
  from show_int_start [of i] obtain c cs where c: "show_int i = c # cs" "c = CHR ''-'' \<or> is_digit c"
    by blast
  have "parse_number ((c # cs) @ r) = Some (JNumber i, r)"
    using parse_number_show_int [OF delim_number_end [OF assms], of i] by (simp only: c(1))
  with number_start [OF c(2)] show "parse_value (Suc n) (show_int i @ r) = Some (JNumber i, r)"
    by (simp add: c(1) skip_ws_def)
  have "parse_chars (concat (map escape_char s) @ dquote # r) = Some (s, r)"
    by (rule parse_chars_quote)
  then show "parse_value (Suc n) (quote s @ r) = Some (JString s, r)"
    by (simp add: quote_def skip_ws_def is_ws_def dquote_def)
qed

lemma parse_elements_join:
  assumes ih: "\<forall>v \<in> set vs. \<forall>n r. delim r \<longrightarrow> weight v \<le> n \<longrightarrow>
                 parse_value n (stringify v @ r) = Some (v, r)"
    and "vs \<noteq> []" and "sum_list (map (\<lambda>v. Suc (weight v)) vs) \<le> m"
  shows "parse_elements m (join_with '','' (map stringify vs) @ CHR '']'' # r) = Some (vs, r)"
  using assms
proof (induction vs arbitrary: m)
  case Nil
  then show ?case by simp
next
  case (Cons v vs)
  from Cons.prems(3) obtain k where m: "m = Suc k" and k: "weight v + sum_list (map (\<lambda>v. Suc (weight v)) vs) \<le> k"
    by (cases m) auto
  show ?case
  proof (cases vs)
    case Nil
    have d: "delim (CHR '']'' # r)" by (simp add: delim_def)
    from Cons.prems(1) d k have "parse_value k (stringify v @ CHR '']'' # r) = Some (v, CHR '']'' # r)"
      by simp
    then show ?thesis
      by (simp add: m Nil skip_ws_delim)
  next
    case (Cons w ws)
    have d: "delim (CHR '','' # join_with '','' (map stringify vs) @ CHR '']'' # r)"
      by (simp add: delim_def)
    from Cons.prems(1) d k
    have 1: "parse_value k (stringify v @ CHR '','' # join_with '','' (map stringify vs) @ CHR '']'' # r) =
            Some (v, CHR '','' # join_with '','' (map stringify vs) @ CHR '']'' # r)"
      by simp
    from Cons.prems(1) k Cons
    have 2: "parse_elements k (join_with '','' (map stringify vs) @ CHR '']'' # r) = Some (vs, r)"
      by (intro Cons.IH) auto
    from 1 2 show ?thesis
      by (simp add: m Cons skip_ws_delim)
  qed
qed


lemma parse_members_join:
  assumes ih: "\<forall>(k, v) \<in> set ms. \<forall>n r. delim r \<longrightarrow> weight v \<le> n \<longrightarrow>
                 parse_value n (stringify v @ r) = Some (v, r)"
    and "ms \<noteq> []" and "sum_list (map (\<lambda>(k, v). Suc (weight v)) ms) \<le> m"
  shows "parse_members m
           (join_with '','' (map (\<lambda>(k, v). quote k @ '':'' @ stringify v) ms) @ CHR ''}'' # r) =
         Some (ms, r)"
  using assms
proof (induction ms arbitrary: m)
  case Nil
  then show ?case by simp
next
  case (Cons kv ms)
  obtain key v where kv: "kv = (key, v)" by (cases kv)
  from Cons.prems(3) obtain k where m: "m = Suc k"
    and k: "weight v + sum_list (map (\<lambda>(k, v). Suc (weight v)) ms) \<le> k"
    by (cases m) (auto simp: kv)
  have q: "parse_chars (concat (map escape_char key) @ dquote # x) = Some (key, x)" for x
    by (rule parse_chars_quote)
  show ?case
  proof (cases ms)
    case Nil
    have d: "delim (CHR ''}'' # r)" by (simp add: delim_def)
    from Cons.prems(1) d k have "parse_value k (stringify v @ CHR ''}'' # r) = Some (v, CHR ''}'' # r)"
      by (simp add: kv)
    then show ?thesis
      by (simp add: m Nil kv quote_def skip_ws_delim q)
  next
    case (Cons w ws)
    let ?rest = "join_with '','' (map (\<lambda>(k, v). quote k @ '':'' @ stringify v) ms) @ CHR ''}'' # r"
    have d: "delim (CHR '','' # ?rest)"
      by (simp add: delim_def)
    from Cons.prems(1) d k
    have 1: "parse_value k (stringify v @ CHR '','' # ?rest) = Some (v, CHR '','' # ?rest)"
      by (simp add: kv)
    from Cons.prems(1) k Cons
    have 2: "parse_members k ?rest = Some (ms, r)"
      by (intro Cons.IH) auto
    have j: "join_with '','' (map (\<lambda>(k, v). quote k @ '':'' @ stringify v) (kv # ms)) @ CHR ''}'' # r =
             dquote # concat (map escape_char key) @ dquote # CHR '':'' # stringify v @ CHR '','' # ?rest"
      by (simp add: Cons kv quote_def)
    show ?thesis
      unfolding j m using 1 2
      by (simp add: skip_ws_delim q kv)
  qed
qed

lemma join_with_Cons:
  "join_with sep (x # xs) = x @ (if xs = [] then [] else sep @ join_with sep xs)"
  by (cases xs) simp_all

lemma first_ok_append: "first_ok s \<Longrightarrow> first_ok (s @ x)"
  by (cases s) (simp_all add: first_ok_def)

lemma first_ok_elements: "vs \<noteq> [] \<Longrightarrow> first_ok (join_with sep (map stringify vs) @ x)"
  by (cases vs) (simp_all add: join_with_Cons first_ok_append stringify_first del: join_with.simps)

lemma first_ok_members:
  "ms \<noteq> [] \<Longrightarrow> first_ok (join_with sep (map (\<lambda>(k, v). quote k @ '':'' @ stringify v) ms) @ x)"
  by (cases ms)
     (auto simp: join_with_Cons first_ok_def quote_def is_ws_def dquote_def simp del: join_with.simps)

lemma parse_value_open:
  assumes "first_ok body"
  shows "body = CHR '']'' # x \<Longrightarrow> False"
    "parse_value (Suc m) (CHR ''['' # body) =
       map_option (\<lambda>(vs, r1). (JArray vs, r1)) (parse_elements m body)"
    "parse_value (Suc m) (CHR ''{'' # body) =
       map_option (\<lambda>(ms, r1). (JObject ms, r1)) (parse_members m body)"
proof -
  from assms obtain d r' where b: "body = d # r'" "\<not> is_ws d" "d \<noteq> CHR '']''" "d \<noteq> CHR ''}''"
    by (cases body) (auto simp: first_ok_def)
  then have s: "skip_ws (d # r') = d # r'" by (simp add: skip_ws_def)
  show "body = CHR '']'' # x \<Longrightarrow> False" using b by simp
  show "parse_value (Suc m) (CHR ''['' # body) =
       map_option (\<lambda>(vs, r1). (JArray vs, r1)) (parse_elements m body)"
    using b by (simp add: skip_ws_delim s dquote_def)
  show "parse_value (Suc m) (CHR ''{'' # body) =
       map_option (\<lambda>(ms, r1). (JObject ms, r1)) (parse_members m body)"
    using b by (simp add: skip_ws_delim s dquote_def)
qed

lemma parse_value_empty:
  "parse_value (Suc m) (CHR ''['' # CHR '']'' # r) = Some (JArray [], r)"
  "parse_value (Suc m) (CHR ''{'' # CHR ''}'' # r) = Some (JObject [], r)"
  by (simp_all add: skip_ws_delim dquote_def)

lemma parse_value_stringify:
  "delim r \<Longrightarrow> weight v \<le> n \<Longrightarrow> parse_value n (stringify v @ r) = Some (v, r)"
proof (induction v arbitrary: n r)
  case JNull
  then obtain m where "n = Suc m" by (cases n) auto
  with parse_value_atoms(1) [OF JNull(1)] show ?case by simp
next
  case (JBool b)
  then obtain m where "n = Suc m" by (cases n) auto
  with parse_value_atoms(2,3) [OF JBool(1)] show ?case by (cases b) simp_all
next
  case (JNumber i)
  then obtain m where "n = Suc m" by (cases n) auto
  with parse_value_atoms(4) [OF JNumber(1)] show ?case by simp
next
  case (JString s)
  then obtain m where "n = Suc m" by (cases n) auto
  with parse_value_atoms(5) [OF JString(1)] show ?case by simp
next
  case (JArray vs)
  from JArray(3) obtain m where n: "n = Suc m" and m: "sum_list (map (\<lambda>v. Suc (weight v)) vs) \<le> m"
    by (cases n) auto
  show ?case
  proof (cases "vs = []")
    case True
    then show ?thesis by (simp add: n parse_value_empty del: parse_value.simps)
  next
    case False
    let ?body = "join_with '','' (map stringify vs) @ CHR '']'' # r"
    have ih: "\<forall>v \<in> set vs. \<forall>n r. delim r \<longrightarrow> weight v \<le> n \<longrightarrow>
                 parse_value n (stringify v @ r) = Some (v, r)"
      using JArray(1) by blast
    have e: "parse_elements m ?body = Some (vs, r)"
      by (rule parse_elements_join [OF ih False m])
    have f: "first_ok ?body" by (rule first_ok_elements [OF False])
    have "stringify (JArray vs) @ r = CHR ''['' # ?body" by simp
    then show ?thesis
      by (simp only: n parse_value_open(2) [OF f] e option.map prod.case)
  qed
next
  case (JObject ms)
  from JObject(3) obtain m where n: "n = Suc m"
    and m: "sum_list (map (\<lambda>(k, v). Suc (weight v)) ms) \<le> m"
    by (cases n) auto
  show ?case
  proof (cases "ms = []")
    case True
    then show ?thesis by (simp add: n parse_value_empty del: parse_value.simps)
  next
    case False
    let ?body = "join_with '','' (map (\<lambda>(k, v). quote k @ '':'' @ stringify v) ms) @ CHR ''}'' # r"
    have ih: "\<forall>(k, v) \<in> set ms. \<forall>n r. delim r \<longrightarrow> weight v \<le> n \<longrightarrow>
                 parse_value n (stringify v @ r) = Some (v, r)"
      using JObject(1) by fastforce
    have e: "parse_members m ?body = Some (ms, r)"
      by (rule parse_members_join [OF ih False m])
    have f: "first_ok ?body" by (rule first_ok_members [OF False])
    have "stringify (JObject ms) @ r = CHR ''{'' # ?body" by simp
    then show ?thesis
      by (simp only: n parse_value_open(3) [OF f] e option.map prod.case)
  qed
qed

lemma join_with_length:
  "sum_list (map length xs) + length xs \<le> Suc (length (join_with '','' xs))"
  by (induction "'',''" xs rule: join_with.induct) simp_all

lemma stringify_nonempty: "0 < length (stringify v)"
  using stringify_first [of v] by (simp add: first_ok_def)

lemma weight_le_length: "weight v \<le> length (stringify v)"
proof (induction v)
  case (JArray vs)
  have "sum_list (map (\<lambda>v. Suc (weight v)) vs) \<le>
        sum_list (map length (map stringify vs)) + length (map stringify vs)"
    using JArray
  proof (induction vs)
    case Nil
    then show ?case by simp
  next
    case (Cons v vs)
    from Cons.prems [of v] have "weight v \<le> length (stringify v)" by simp
    moreover from Cons have "sum_list (map (\<lambda>v. Suc (weight v)) vs) \<le>
        sum_list (map length (map stringify vs)) + length (map stringify vs)"
      by simp
    ultimately show ?case by simp
  qed
  also have "\<dots> \<le> Suc (length (join_with '','' (map stringify vs)))"
    by (rule join_with_length)
  finally show ?case by simp
next
  case (JObject ms)
  then have "\<forall>(k, v) \<in> set ms. weight v \<le> length (stringify v)" by fastforce
  then have "sum_list (map (\<lambda>(k, v). Suc (weight v)) ms) \<le>
        sum_list (map length (map (\<lambda>(k, v). quote k @ '':'' @ stringify v) ms)) +
        length (map (\<lambda>(k, v). quote k @ '':'' @ stringify v) ms)"
  proof (induction ms)
    case Nil
    then show ?case by simp
  next
    case (Cons kv ms)
    obtain k v where kv: "kv = (k, v)" by (cases kv)
    from Cons.prems have "weight v \<le> length (stringify v)" by (simp add: kv)
    moreover from Cons have "sum_list (map (\<lambda>(k, v). Suc (weight v)) ms) \<le>
        sum_list (map length (map (\<lambda>(k, v). quote k @ '':'' @ stringify v) ms)) +
        length (map (\<lambda>(k, v). quote k @ '':'' @ stringify v) ms)"
      by simp
    ultimately show ?case by (simp add: kv)
  qed
  also have "\<dots> \<le> Suc (length (join_with '','' (map (\<lambda>(k, v). quote k @ '':'' @ stringify v) ms)))"
    by (rule join_with_length)
  finally show ?case by simp
qed (simp_all add: stringify_nonempty [of "JNumber i" for i, simplified] quote_def Suc_leI)

lemma parse_stringify: "parse (stringify v) = Some v"
proof -
  have "parse_value (Suc (length (stringify v))) (stringify v @ []) = Some (v, [])"
    by (rule parse_value_stringify) (simp_all add: delim_def le_SucI weight_le_length)
  then show ?thesis by (simp add: parse_def skip_ws_delim)
qed

section \<open>The cache: round trip\<close>

lemma get_after_set:
  assumes "before_expiry now ttl later"
  shows "redis_get (setCache J store now key w ttl) later (PREFIX @ key) =
           Some (case w of JString s \<Rightarrow> s | _ \<Rightarrow> JSON_stringify J w)"
  using assms
  by (auto simp: setCache_def redis_set_def redis_get_def before_expiry_def Let_def)

lemma cache_round_trip_via:
  assumes "before_expiry now ttl later" and "\<not> is_string v"
    and "JSON_parse J (JSON_stringify J v) = Some v"
  shows "getCache J (setCache J store now key v ttl) later key = v"
  using assms(2,3)
  by (cases v) (simp_all add: getCache_def get_after_set [OF assms(1)] is_string_def)

lemma json_codec_round_trip: "JSON_parse json_codec (JSON_stringify json_codec v) = Some v"
  by (simp add: json_codec_def parse_stringify)

text \<open>
  C10. A value that is not a bare string, set under a key and read back under the same
  key before its time to live is over (or set without expiry), comes back as it was:
  with any \<open>JSON\<close> object that reads back what it writes for this value, and, for every
  value, with the \<open>JSON\<close> object above.
\<close>

theorem cache_round_trip:
  assumes "before_expiry now ttl later" and "\<not> is_string v"
  shows "(JSON_parse J (JSON_stringify J v) = Some v \<longrightarrow>
            getCache J (setCache J store now key v ttl) later key = v) \<and>
         getCache json_codec (setCache json_codec store now key v ttl) later key = v"
proof
  show "JSON_parse J (JSON_stringify J v) = Some v \<longrightarrow>
            getCache J (setCache J store now key v ttl) later key = v"
    using assms by (simp add: cache_round_trip_via)
  show "getCache json_codec (setCache json_codec store now key v ttl) later key = v"
    using assms json_codec_round_trip by (rule cache_round_trip_via)
qed

theorem cache_round_trip_witness:
  "before_expiry 1000 None 1599 \<and> \<not> is_string patient_summary \<and>
   JSON_parse json_codec (JSON_stringify json_codec patient_summary) = Some patient_summary \<and>
   getCache json_codec
     (setCache json_codec Map.empty 1000 ''patient_summary_7'' patient_summary None)
     1599 ''patient_summary_7'' = patient_summary"
proof -
  have a: "before_expiry 1000 None 1599" by (simp add: before_expiry_def)
  have b: "\<not> is_string patient_summary" by (simp add: is_string_def patient_summary_def)
  have c: "JSON_parse json_codec (JSON_stringify json_codec patient_summary) = Some patient_summary"
    by (rule json_codec_round_trip)
  from cache_round_trip [OF a b, of json_codec Map.empty "''patient_summary_7''",
      THEN conjunct1, rule_format, OF c] a b c
  show ?thesis by (intro conjI)
qed

text \<open>
  A bare string is stored as it is and read back through \<open>JSON.parse\<close>: it comes back as
  the value its text denotes when it is JSON text, and as it was otherwise.
\<close>

lemma cache_bare_string:
  assumes "before_expiry now ttl later"
  shows "getCache J (setCache J store now key (JString s) ttl) later key =
           (case JSON_parse J s of Some parsed \<Rightarrow> parsed | None \<Rightarrow> JString s)"
  by (simp add: getCache_def get_after_set [OF assms])

lemma cache_bare_string_example:
  "getCache json_codec (setCache json_codec Map.empty 1000 ''k'' (JString ''123'') None) 1599 ''k'' =
     JNumber 123"
  "getCache json_codec (setCache json_codec Map.empty 1000 ''k'' (JString ''abc'') None) 1599 ''k'' =
     JString ''abc''"
proof -
  have a: "before_expiry 1000 None 1599" by (simp add: before_expiry_def)
  have "parse_nat ''123'' = Some (123, [])"
    by (simp add: parse_nat_def is_digit_def digit_val_def)
  then have 1: "parse ''123'' = Some (JNumber 123)"
    by (simp add: parse_def skip_ws_def is_ws_def parse_number_def dquote_def)
  have 2: "parse ''abc'' = None"
    by (simp add: parse_def skip_ws_def is_ws_def parse_number_def parse_nat_def is_digit_def
          dquote_def)
  show "getCache json_codec (setCache json_codec Map.empty 1000 ''k'' (JString ''123'') None) 1599 ''k'' =
     JNumber 123"
    by (simp add: cache_bare_string [OF a] json_codec_def 1)
  show "getCache json_codec (setCache json_codec Map.empty 1000 ''k'' (JString ''abc'') None) 1599 ''k'' =
     JString ''abc''"
    by (simp add: cache_bare_string [OF a] json_codec_def 2)
qed

end
